theory Spec2Isabelle
  imports Main "HOL-Library.Word" "HOL-Library.AList"
begin

section \<open>The Rocket Pool exporter: data model\<close>

text \<open>
  The development embeds \<^verbatim>\<open>exporter/rocketpool.go\<close>. A byte slice is a list of
  8-bit words, a \<^verbatim>\<open>time.Time\<close> is its Unix time in seconds, a \<^verbatim>\<open>float64\<close> is its
  64-bit pattern (the exporter only stores and copies such values) and a
  \<^verbatim>\<open>*big.Int\<close> is an optional integer, \<open>None\<close> being the nil pointer.
\<close>

type_synonym bytes = "8 word list"
type_synonym Address = "8 word list"
type_synonym Time = int
type_synonym float64 = "64 word"

datatype error = ChainError nat | DBError nat

text \<open>The three cached structs, with the fields of the source.\<close>

record RocketpoolMinipool =
  Address :: bytes
  Pubkey :: bytes
  NodeAddress :: bytes
  NodeFee :: float64
  DepositType :: string
  Status :: string
  StatusTime :: Time

record RocketpoolNode =
  Address :: bytes
  TimezoneLocation :: string
  RPLStake :: "int option"
  MinRPLStake :: "int option"
  MaxRPLStake :: "int option"

record RocketpoolProposal =
  ID :: "64 word"
  DAO :: string
  ProposerAddress :: bytes
  Message :: string
  CreatedTime :: Time
  StartTime :: Time
  EndTime :: Time
  ExpiryTime :: Time
  VotesRequired :: float64
  VotesFor :: float64
  VotesAgainst :: float64
  MemberVoted :: bool
  MemberSupported :: bool
  IsCancelled :: bool
  IsExecuted :: bool
  Payload :: bytes
  State :: string

text \<open>
  \<^verbatim>\<open>dao.ProposalDetails\<close> of the rocketpool-go library, as far as the exporter reads it.
\<close>

record ProposalDetails =
  pd_ID :: "64 word"
  pd_DAO :: string
  pd_ProposerAddress :: Address
  pd_Message :: string
  pd_CreatedTime :: "64 word"
  pd_StartTime :: "64 word"
  pd_EndTime :: "64 word"
  pd_ExpiryTime :: "64 word"
  pd_VotesRequired :: float64
  pd_VotesFor :: float64
  pd_VotesAgainst :: float64
  pd_MemberVoted :: bool
  pd_MemberSupported :: bool
  pd_IsCancelled :: bool
  pd_IsExecuted :: bool
  pd_Payload :: bytes
  pd_State :: "8 word"

text \<open>
  The chain read API and the library functions the exporter calls are not part of the
  source: they are a parameter. Every read either fails with an error or returns a
  value; within one refresh a read is a function of its arguments. The enumerations of
  the library are their numeric codes together with the library's \<^verbatim>\<open>String()\<close>
  functions, and \<^verbatim>\<open>Hex\<close> is the checksummed rendering of \<^verbatim>\<open>common.Address\<close>.
  \<open>finished\<close> gives each task of an \<^verbatim>\<open>errgroup\<close> the moment it finishes; which task
  fails first is the scheduler's choice.
\<close>

record RocketPool =
  RocketStorageContract_Address :: bytes
  Hex :: "Address \<Rightarrow> string"
  MinipoolStatus_String :: "8 word \<Rightarrow> string"
  MinipoolDeposit_String :: "8 word \<Rightarrow> string"
  ProposalState_String :: "8 word \<Rightarrow> string"
  GetMinipoolAddresses :: "error + Address list"
  GetMinipoolPubkey :: "Address \<Rightarrow> error + bytes"
  NewMinipool :: "Address \<Rightarrow> error option"
  GetNodeAddress :: "Address \<Rightarrow> error + Address"
  GetNodeFee :: "Address \<Rightarrow> error + float64"
  GetDepositType :: "Address \<Rightarrow> error + 8 word"
  GetStatus :: "Address \<Rightarrow> error + 8 word"
  GetStatusTime :: "Address \<Rightarrow> error + Time"
  GetNodeAddresses :: "error + Address list"
  GetNodeTimezoneLocation :: "Address \<Rightarrow> error + string"
  GetNodeRPLStake :: "Address \<Rightarrow> error + int"
  GetNodeMinimumRPLStake :: "Address \<Rightarrow> error + int"
  GetNodeMaximumRPLStake :: "Address \<Rightarrow> error + int"
  GetProposalCount :: "error + 64 word"
  GetProposalDetails :: "64 word \<Rightarrow> error + ProposalDetails"
  finished :: "string \<Rightarrow> nat"

text \<open>
  \<^verbatim>\<open>common.BytesToAddress\<close>: the last 20 bytes of the slice, padded on the left with
  zeros.
\<close>

definition BytesToAddress :: "bytes \<Rightarrow> Address" where
  "BytesToAddress b =
     (let b' = (if 20 < length b then drop (length b - 20) b else b)
      in replicate (20 - length b') 0 @ b')"

text \<open>
  \<^verbatim>\<open>errgroup.Group.Wait\<close>: every task runs to its end, and the error of the task that
  failed first is returned. A task is given as the moment it finished and its result.
\<close>

definition errgroup_Wait :: "(nat \<times> error option) list \<Rightarrow> error option" where
  "errgroup_Wait tasks =
     (case sort_key fst (filter (\<lambda>t. snd t \<noteq> None) tasks) of
        [] \<Rightarrow> None
      | t # _ \<Rightarrow> snd t)"

definition err_of :: "error + 'a \<Rightarrow> error option" where
  "err_of r = (case r of Inl e \<Rightarrow> Some e | Inr _ \<Rightarrow> None)"

section \<open>Refreshing one entity\<close>

text \<open>
  A method with a pointer receiver returns its error together with the struct as the
  call leaves it. The two reads of a minipool run as two tasks of one group; each
  assigns its local variable, which keeps its zero value when the read fails.
\<close>

definition val_of :: "'a \<Rightarrow> error + 'a \<Rightarrow> 'a" where
  "val_of zero r = (case r of Inl _ \<Rightarrow> zero | Inr v \<Rightarrow> v)"

definition RocketpoolMinipool_Update ::
  "RocketPool \<Rightarrow> RocketpoolMinipool \<Rightarrow> error option \<times> RocketpoolMinipool" where
  "RocketpoolMinipool_Update rp this =
     (let a = BytesToAddress (RocketpoolMinipool.Address this) in
      case NewMinipool rp a of
        Some err \<Rightarrow> (Some err, this)
      | None \<Rightarrow>
          (let r1 = GetStatus rp a;
               r2 = GetStatusTime rp a;
               status = val_of 0 r1;
               statusTime = val_of 0 r2
           in case errgroup_Wait [(finished rp ''status'', err_of r1),
                                  (finished rp ''statusTime'', err_of r2)] of
                Some err \<Rightarrow> (Some err, this)
              | None \<Rightarrow>
                  (None, this\<lparr>Status := MinipoolStatus_String rp status,
                              StatusTime := statusTime\<rparr>)))"

definition RocketpoolNode_Update ::
  "RocketPool \<Rightarrow> RocketpoolNode \<Rightarrow> error option \<times> RocketpoolNode" where
  "RocketpoolNode_Update rp this =
     (let a = BytesToAddress (RocketpoolNode.Address this) in
      case GetNodeRPLStake rp a of
        Inl err \<Rightarrow> (Some err, this)
      | Inr stake \<Rightarrow>
          (case GetNodeMinimumRPLStake rp a of
             Inl err \<Rightarrow> (Some err, this)
           | Inr minStake \<Rightarrow>
               (case GetNodeMaximumRPLStake rp a of
                  Inl err \<Rightarrow> (Some err, this)
                | Inr maxStake \<Rightarrow>
                    (None, this\<lparr>RPLStake := Some stake,
                                MinRPLStake := Some minStake,
                                MaxRPLStake := Some maxStake\<rparr>))))"

definition RocketpoolProposal_Update ::
  "RocketPool \<Rightarrow> RocketpoolProposal \<Rightarrow> error option \<times> RocketpoolProposal" where
  "RocketpoolProposal_Update rp this =
     (case GetProposalDetails rp (ID this) of
        Inl err \<Rightarrow> (Some err, this)
      | Inr pd \<Rightarrow>
          (None, this\<lparr>ID := pd_ID pd,
                      DAO := pd_DAO pd,
                      ProposerAddress := pd_ProposerAddress pd,
                      Message := pd_Message pd,
                      CreatedTime := sint (pd_CreatedTime pd),
                      StartTime := sint (pd_StartTime pd),
                      EndTime := sint (pd_EndTime pd),
                      ExpiryTime := sint (pd_ExpiryTime pd),
                      VotesRequired := pd_VotesRequired pd,
                      VotesFor := pd_VotesFor pd,
                      VotesAgainst := pd_VotesAgainst pd,
                      MemberVoted := pd_MemberVoted pd,
                      MemberSupported := pd_MemberSupported pd,
                      IsCancelled := pd_IsCancelled pd,
                      IsExecuted := pd_IsExecuted pd,
                      Payload := pd_Payload pd,
                      State := ProposalState_String rp (pd_State pd)\<rparr>))"

section \<open>The engine and its caches\<close>

text \<open>
  The caches map an identifier to a pointer, and a refresh writes through the pointer:
  the structs live in a store, one per kind, and a pointer is the number of a cell.
  \<open>new\<close> allocates the next cell. A Go map is an association list with distinct
  keys; its order stands for the order in which \<^verbatim>\<open>range\<close> visits the map, which the
  language leaves open.
\<close>

record 'a store =
  cell :: "nat \<Rightarrow> 'a"
  top :: nat

definition new :: "'a \<Rightarrow> 'a store \<Rightarrow> nat \<times> 'a store" where
  "new v h = (top h, h\<lparr>cell := (cell h)(top h := v), top := Suc (top h)\<rparr>)"

definition put :: "nat \<Rightarrow> 'a \<Rightarrow> 'a store \<Rightarrow> 'a store" where
  "put p v h = h\<lparr>cell := (cell h)(p := v)\<rparr>"

definition zero_Time :: Time where
  "zero_Time = - 62135596800"

definition zero_Minipool :: RocketpoolMinipool where
  "zero_Minipool = \<lparr>RocketpoolMinipool.Address = [], Pubkey = [], NodeAddress = [], NodeFee = 0,
     DepositType = [], Status = [], StatusTime = zero_Time\<rparr>"

definition zero_Node :: RocketpoolNode where
  "zero_Node = \<lparr>RocketpoolNode.Address = [], TimezoneLocation = [], RPLStake = None,
     MinRPLStake = None, MaxRPLStake = None\<rparr>"

definition zero_Proposal :: RocketpoolProposal where
  "zero_Proposal = \<lparr>ID = 0, DAO = [], ProposerAddress = [], Message = [],
     CreatedTime = zero_Time, StartTime = zero_Time, EndTime = zero_Time,
     ExpiryTime = zero_Time, VotesRequired = 0, VotesFor = 0, VotesAgainst = 0,
     MemberVoted = False, MemberSupported = False, IsCancelled = False,
     IsExecuted = False, Payload = [], State = []\<rparr>"

definition empty_store :: "'a \<Rightarrow> 'a store" where
  "empty_store z = \<lparr>cell = (\<lambda>_. z), top = 0\<rparr>"

record RocketpoolExporter =
  UpdateInterval :: nat
  MinipoolsByAddress :: "(string \<times> nat) list"
  NodesByAddress :: "(string \<times> nat) list"
  ProposalsByID :: "(64 word \<times> nat) list"
  minipool_store :: "RocketpoolMinipool store"
  node_store :: "RocketpoolNode store"
  proposal_store :: "RocketpoolProposal store"

text \<open>
  \<^verbatim>\<open>NewRocketpoolExporter\<close>: \<open>dial\<close> is the result of \<^verbatim>\<open>rocketpool.NewRocketPool\<close>. The
  interval is in seconds.
\<close>

definition NewRocketpoolExporter :: "error + RocketPool \<Rightarrow> error + RocketpoolExporter" where
  "NewRocketpoolExporter dial =
     (case dial of
        Inl err \<Rightarrow> Inl err
      | Inr rp \<Rightarrow>
          Inr \<lparr>UpdateInterval = 60,
               MinipoolsByAddress = [],
               NodesByAddress = [],
               ProposalsByID = [],
               minipool_store = empty_store zero_Minipool,
               node_store = empty_store zero_Node,
               proposal_store = empty_store zero_Proposal\<rparr>)"

section \<open>Creating an entity\<close>

definition NewRocketpoolMinipool ::
  "RocketPool \<Rightarrow> bytes \<Rightarrow> RocketpoolMinipool store \<Rightarrow> (error + nat) \<times> RocketpoolMinipool store" where
  "NewRocketpoolMinipool rp addr h =
     (case GetMinipoolPubkey rp (BytesToAddress addr) of
        Inl err \<Rightarrow> (Inl err, h)
      | Inr pubk \<Rightarrow>
     (case NewMinipool rp (BytesToAddress addr) of
        Some err \<Rightarrow> (Inl err, h)
      | None \<Rightarrow>
     (case GetNodeAddress rp (BytesToAddress addr) of
        Inl err \<Rightarrow> (Inl err, h)
      | Inr nodeAddr \<Rightarrow>
     (case GetNodeFee rp (BytesToAddress addr) of
        Inl err \<Rightarrow> (Inl err, h)
      | Inr nodeFee \<Rightarrow>
     (case GetDepositType rp (BytesToAddress addr) of
        Inl err \<Rightarrow> (Inl err, h)
      | Inr depositType \<Rightarrow>
          (let (rpm, h1) = new (zero_Minipool\<lparr>RocketpoolMinipool.Address := addr,
                                  Pubkey := pubk,
                                  NodeAddress := nodeAddr,
                                  NodeFee := nodeFee,
                                  DepositType := MinipoolDeposit_String rp depositType\<rparr>) h
           in case RocketpoolMinipool_Update rp (cell h1 rpm) of
                (Some err, this) \<Rightarrow> (Inl err, put rpm this h1)
              | (None, this) \<Rightarrow> (Inr rpm, put rpm this h1)))))))"

definition NewRocketpoolNode ::
  "RocketPool \<Rightarrow> bytes \<Rightarrow> RocketpoolNode store \<Rightarrow> (error + nat) \<times> RocketpoolNode store" where
  "NewRocketpoolNode rp addr h =
     (let (rpn, h1) = new (zero_Node\<lparr>RocketpoolNode.Address := addr\<rparr>) h in
      case GetNodeTimezoneLocation rp (BytesToAddress addr) of
        Inl err \<Rightarrow> (Inl err, h1)
      | Inr tz \<Rightarrow>
          (let h2 = put rpn ((cell h1 rpn)\<lparr>TimezoneLocation := tz\<rparr>) h1 in
           case RocketpoolNode_Update rp (cell h2 rpn) of
             (Some err, this) \<Rightarrow> (Inl err, put rpn this h2)
           | (None, this) \<Rightarrow> (Inr rpn, put rpn this h2)))"

definition NewRocketpoolProposal ::
  "RocketPool \<Rightarrow> 64 word \<Rightarrow> RocketpoolProposal store \<Rightarrow> (error + nat) \<times> RocketpoolProposal store" where
  "NewRocketpoolProposal rp pid h =
     (let (p, h1) = new (zero_Proposal\<lparr>ID := pid\<rparr>) h in
      case RocketpoolProposal_Update rp (cell h1 p) of
        (Some err, this) \<Rightarrow> (Inl err, put p this h1)
      | (None, this) \<Rightarrow> (Inr p, put p this h1))"

section \<open>The three synchronizers\<close>

text \<open>
  \<^verbatim>\<open>a.Hex()\<close> is the key of a minipool and of a node; \<^verbatim>\<open>a.Bytes()\<close> is \<open>a\<close>
  itself. \<^verbatim>\<open>m[k] = v\<close> is \<open>AList.update k v m\<close>.
\<close>

fun UpdateMinipools_loop ::
  "RocketPool \<Rightarrow> Address list \<Rightarrow> RocketpoolExporter \<Rightarrow> error option \<times> RocketpoolExporter" where
  "UpdateMinipools_loop api [] rp = (None, rp)"
| "UpdateMinipools_loop api (a # as) rp =
     (let addrHex = Hex api a in
      case map_of (MinipoolsByAddress rp) addrHex of
        Some mp \<Rightarrow>
          (case RocketpoolMinipool_Update api (cell (minipool_store rp) mp) of
             (Some err, this) \<Rightarrow> (Some err, rp\<lparr>minipool_store := put mp this (minipool_store rp)\<rparr>)
           | (None, this) \<Rightarrow>
               UpdateMinipools_loop api as (rp\<lparr>minipool_store := put mp this (minipool_store rp)\<rparr>))
      | None \<Rightarrow>
          (case NewRocketpoolMinipool api a (minipool_store rp) of
             (Inl err, h) \<Rightarrow> (Some err, rp\<lparr>minipool_store := h\<rparr>)
           | (Inr mp, h) \<Rightarrow>
               UpdateMinipools_loop api as
                 (rp\<lparr>minipool_store := h,
                     MinipoolsByAddress := AList.update addrHex mp (MinipoolsByAddress rp)\<rparr>)))"

definition UpdateMinipools ::
  "RocketPool \<Rightarrow> RocketpoolExporter \<Rightarrow> error option \<times> RocketpoolExporter" where
  "UpdateMinipools api rp =
     (case GetMinipoolAddresses api of
        Inl err \<Rightarrow> (Some err, rp)
      | Inr minipoolAddresses \<Rightarrow> UpdateMinipools_loop api minipoolAddresses rp)"

fun UpdateNodes_loop ::
  "RocketPool \<Rightarrow> Address list \<Rightarrow> RocketpoolExporter \<Rightarrow> error option \<times> RocketpoolExporter" where
  "UpdateNodes_loop api [] rp = (None, rp)"
| "UpdateNodes_loop api (a # as) rp =
     (let addrHex = Hex api a in
      case map_of (NodesByAddress rp) addrHex of
        Some node \<Rightarrow>
          (case RocketpoolNode_Update api (cell (node_store rp) node) of
             (Some err, this) \<Rightarrow> (Some err, rp\<lparr>node_store := put node this (node_store rp)\<rparr>)
           | (None, this) \<Rightarrow>
               UpdateNodes_loop api as (rp\<lparr>node_store := put node this (node_store rp)\<rparr>))
      | None \<Rightarrow>
          (case NewRocketpoolNode api a (node_store rp) of
             (Inl err, h) \<Rightarrow> (Some err, rp\<lparr>node_store := h\<rparr>)
           | (Inr node, h) \<Rightarrow>
               UpdateNodes_loop api as
                 (rp\<lparr>node_store := h,
                     NodesByAddress := AList.update addrHex node (NodesByAddress rp)\<rparr>)))"

definition UpdateNodes ::
  "RocketPool \<Rightarrow> RocketpoolExporter \<Rightarrow> error option \<times> RocketpoolExporter" where
  "UpdateNodes api rp =
     (case GetNodeAddresses api of
        Inl err \<Rightarrow> (Some err, rp)
      | Inr nodeAddresses \<Rightarrow> UpdateNodes_loop api nodeAddresses rp)"

text \<open>The loop of \<^verbatim>\<open>UpdateProposals\<close> counts \<open>i\<close> in 64 bits from 0 while \<open>i < pc\<close>.\<close>

function UpdateProposals_loop ::
  "RocketPool \<Rightarrow> 64 word \<Rightarrow> 64 word \<Rightarrow> RocketpoolExporter \<Rightarrow> error option \<times> RocketpoolExporter" where
  "UpdateProposals_loop api pc i rp =
     (if i < pc then
        (case NewRocketpoolProposal api (i + 1) (proposal_store rp) of
           (Inl err, h) \<Rightarrow> (Some err, rp\<lparr>proposal_store := h\<rparr>)
         | (Inr p, h) \<Rightarrow>
             UpdateProposals_loop api pc (i + 1)
               (rp\<lparr>proposal_store := h,
                   ProposalsByID := AList.update i p (ProposalsByID rp)\<rparr>))
      else (None, rp))"
  by pat_completeness auto
termination
proof (relation "measure (\<lambda>(api, pc, i, rp). unat pc - unat i)")
  show "wf (measure (\<lambda>(api, pc, i, rp). unat pc - unat i))"
    by simp
next
  fix api :: RocketPool and pc i :: "64 word" and rp :: RocketpoolExporter
    and x :: "(error + nat) \<times> RocketpoolProposal store" and x1 x2 x2a
  assume lt: "i < pc"
  then have "unat i < unat pc"
    by (simp add: word_less_nat_alt)
  moreover have "unat pc < 2 ^ 64"
    using unsigned_less [of pc] by simp
  ultimately have "unat i + 1 < 2 ^ 64"
    by simp
  then have "unat (i + 1) = Suc (unat i)"
    by (simp add: unat_word_ariths)
  with \<open>unat i < unat pc\<close> show "((api, pc, i + 1,
           rp\<lparr>proposal_store := x2, ProposalsByID := AList.update i x2a (ProposalsByID rp)\<rparr>),
          (api, pc, i, rp)) \<in> measure (\<lambda>(api, pc, i, rp). unat pc - unat i)"
    by simp
qed

definition UpdateProposals ::
  "RocketPool \<Rightarrow> RocketpoolExporter \<Rightarrow> error option \<times> RocketpoolExporter" where
  "UpdateProposals api rp =
     (case GetProposalCount api of
        Inl err \<Rightarrow> (Some err, rp)
      | Inr pc \<Rightarrow> UpdateProposals_loop api pc 0 rp)"

text \<open>
  \<^verbatim>\<open>Update\<close> runs the three synchronizers as the tasks of one group. Each task works on
  its own cache and store, so the state after the group is the state after the three
  in any order; the error is the one of the task that failed first.
\<close>

definition Update ::
  "RocketPool \<Rightarrow> RocketpoolExporter \<Rightarrow> error option \<times> RocketpoolExporter" where
  "Update api rp =
     (let (e1, rp1) = UpdateMinipools api rp;
          (e2, rp2) = UpdateNodes api rp1;
          (e3, rp3) = UpdateProposals api rp2
      in (errgroup_Wait [(finished api ''UpdateMinipools'', e1),
                         (finished api ''UpdateNodes'', e2),
                         (finished api ''UpdateProposals'', e3)], rp3))"

section \<open>Seeding the caches from durable storage\<close>

text \<open>
  The result of \<^verbatim>\<open>rp.DB.Select\<close> is a parameter: an error or the rows as structs.
  \<^verbatim>\<open>fmt.Sprintf("%x", b)\<close> writes every byte as two lower-case hexadecimal digits.

  The loops are \<^verbatim>\<open>for _, mp := range dbRes { m[key] = &mp }\<close>. The source is written
  for a Go older than 1.22 (it predates that release), where the loop variable is one
  variable for the whole loop: every iteration copies the row into the same cell, and
  \<^verbatim>\<open>&mp\<close> is the same pointer each time.
\<close>

definition hex_byte :: "8 word \<Rightarrow> string" where
  "hex_byte b = [''0123456789abcdef'' ! (unat b div 16), ''0123456789abcdef'' ! (unat b mod 16)]"

definition Sprintf_x :: "bytes \<Rightarrow> string" where
  "Sprintf_x b = concat (map hex_byte b)"

fun InitMinipools_loop ::
  "nat \<Rightarrow> RocketpoolMinipool list \<Rightarrow> RocketpoolExporter \<Rightarrow> RocketpoolExporter" where
  "InitMinipools_loop mp [] rp = rp"
| "InitMinipools_loop mp (row # rows) rp =
     InitMinipools_loop mp rows
       (rp\<lparr>minipool_store := put mp row (minipool_store rp),
           MinipoolsByAddress :=
             AList.update (Sprintf_x (RocketpoolMinipool.Address row)) mp (MinipoolsByAddress rp)\<rparr>)"

definition InitMinipools ::
  "error + RocketpoolMinipool list \<Rightarrow> RocketpoolExporter \<Rightarrow> error option \<times> RocketpoolExporter" where
  "InitMinipools sel rp =
     (case sel of
        Inl err \<Rightarrow> (Some err, rp)
      | Inr dbRes \<Rightarrow>
          (let (mp, h) = new zero_Minipool (minipool_store rp)
           in (None, InitMinipools_loop mp dbRes (rp\<lparr>minipool_store := h\<rparr>))))"

fun InitNodes_loop ::
  "nat \<Rightarrow> RocketpoolNode list \<Rightarrow> RocketpoolExporter \<Rightarrow> RocketpoolExporter" where
  "InitNodes_loop node [] rp = rp"
| "InitNodes_loop node (row # rows) rp =
     InitNodes_loop node rows
       (rp\<lparr>node_store := put node row (node_store rp),
           NodesByAddress :=
             AList.update (Sprintf_x (RocketpoolNode.Address row)) node (NodesByAddress rp)\<rparr>)"

definition InitNodes ::
  "error + RocketpoolNode list \<Rightarrow> RocketpoolExporter \<Rightarrow> error option \<times> RocketpoolExporter" where
  "InitNodes sel rp =
     (case sel of
        Inl err \<Rightarrow> (Some err, rp)
      | Inr dbRes \<Rightarrow>
          (let (node, h) = new zero_Node (node_store rp)
           in (None, InitNodes_loop node dbRes (rp\<lparr>node_store := h\<rparr>))))"

fun InitProposals_loop ::
  "nat \<Rightarrow> RocketpoolProposal list \<Rightarrow> RocketpoolExporter \<Rightarrow> RocketpoolExporter" where
  "InitProposals_loop proposal [] rp = rp"
| "InitProposals_loop proposal (row # rows) rp =
     InitProposals_loop proposal rows
       (rp\<lparr>proposal_store := put proposal row (proposal_store rp),
           ProposalsByID := AList.update (ID row) proposal (ProposalsByID rp)\<rparr>)"

definition InitProposals ::
  "error + RocketpoolProposal list \<Rightarrow> RocketpoolExporter \<Rightarrow> error option \<times> RocketpoolExporter" where
  "InitProposals sel rp =
     (case sel of
        Inl err \<Rightarrow> (Some err, rp)
      | Inr dbRes \<Rightarrow>
          (let (proposal, h) = new zero_Proposal (proposal_store rp)
           in (None, InitProposals_loop proposal dbRes (rp\<lparr>proposal_store := h\<rparr>))))"

record Selects =
  select_minipools :: "error + RocketpoolMinipool list"
  select_nodes :: "error + RocketpoolNode list"
  select_proposals :: "error + RocketpoolProposal list"

definition Init :: "Selects \<Rightarrow> RocketpoolExporter \<Rightarrow> error option \<times> RocketpoolExporter" where
  "Init sel rp =
     (case InitMinipools (select_minipools sel) rp of
        (Some err, rp1) \<Rightarrow> (Some err, rp1)
      | (None, rp1) \<Rightarrow>
          (case InitNodes (select_nodes sel) rp1 of
             (Some err, rp2) \<Rightarrow> (Some err, rp2)
           | (None, rp2) \<Rightarrow>
               (case InitProposals (select_proposals sel) rp2 of
                  (Some err, rp3) \<Rightarrow> (Some err, rp3)
                | (None, rp3) \<Rightarrow> (None, rp3))))"

section \<open>Durable storage and the persistence layer\<close>

text \<open>
  A table is the list of its rows, a row being its primary key (scope and identifier)
  and its other columns. The journal records every operation sent to the database.
  Whether an operation fails is decided by an oracle, asked with the number of
  operations sent so far.
\<close>

record minipool_cols =
  pubkey :: bytes
  status :: string
  status_time :: Time
  node_address :: bytes
  node_fee :: float64
  deposit_type :: string

record node_cols =
  timezone_location :: string
  rpl_stake :: string
  min_rpl_stake :: string
  max_rpl_stake :: string

record proposal_cols =
  dao :: string
  proposer_address :: bytes
  message :: string
  created_time :: Time
  start_time :: Time
  end_time :: Time
  expiry_time :: Time
  votes_required :: float64
  votes_for :: float64
  votes_against :: float64
  member_voted :: bool
  member_supported :: bool
  is_cancelled :: bool
  is_executed :: bool
  payload :: bytes
  state :: string

datatype db_event = Begin bool | Exec string nat bool | Commit bool | Rollback

record DB =
  rocketpool_minipools :: "((bytes \<times> bytes) \<times> minipool_cols) list"
  rocketpool_nodes :: "((bytes \<times> bytes) \<times> node_cols) list"
  rocketpool_proposals :: "((bytes \<times> 64 word) \<times> proposal_cols) list"
  journal :: "db_event list"

text \<open>
  \<^verbatim>\<open>insert ... on conflict (key) do update set ...\<close> for one row of the
  \<^verbatim>\<open>values\<close> list: \<open>on_conflict old excluded\<close> is the row that the
  \<^verbatim>\<open>set\<close> clause leaves.
\<close>

fun upsert :: "('c \<Rightarrow> 'c \<Rightarrow> 'c) \<Rightarrow> 'k \<times> 'c \<Rightarrow> ('k \<times> 'c) list \<Rightarrow> ('k \<times> 'c) list" where
  "upsert on_conflict (k, excluded) [] = [(k, excluded)]"
| "upsert on_conflict (k, excluded) ((k', old) # t) =
     (if k' = k then (k', on_conflict old excluded) # t
      else (k', old) # upsert on_conflict (k, excluded) t)"

definition insert_values ::
  "('c \<Rightarrow> 'c \<Rightarrow> 'c) \<Rightarrow> ('k \<times> 'c) list \<Rightarrow> ('k \<times> 'c) list \<Rightarrow> ('k \<times> 'c) list" where
  "insert_values on_conflict vals t = foldl (\<lambda>t v. upsert on_conflict v t) t vals"

text \<open>The three statements: the tuple of a cached struct and the \<^verbatim>\<open>set\<close> clause.\<close>

definition minipool_values :: "bytes \<Rightarrow> RocketpoolMinipool \<Rightarrow> (bytes \<times> bytes) \<times> minipool_cols" where
  "minipool_values scope d =
     ((scope, RocketpoolMinipool.Address d),
      \<lparr>pubkey = Pubkey d, status = Status d, status_time = StatusTime d,
       node_address = NodeAddress d, node_fee = NodeFee d, deposit_type = DepositType d\<rparr>)"

definition minipool_conflict :: "minipool_cols \<Rightarrow> minipool_cols \<Rightarrow> minipool_cols" where
  "minipool_conflict old excluded =
     old\<lparr>pubkey := pubkey excluded, status := status excluded,
         status_time := status_time excluded, node_address := node_address excluded,
         node_fee := node_fee excluded, deposit_type := deposit_type excluded\<rparr>"

definition minipools_stmt :: "bytes \<Rightarrow> RocketpoolMinipool list \<Rightarrow> DB \<Rightarrow> DB" where
  "minipools_stmt scope batch w =
     w\<lparr>rocketpool_minipools :=
         insert_values minipool_conflict (map (minipool_values scope) batch) (rocketpool_minipools w)\<rparr>"

text \<open>\<^verbatim>\<open>(*big.Int).String()\<close>: the decimal digits, and \<^verbatim>\<open><nil>\<close> for the nil pointer.\<close>

fun dec :: "nat \<Rightarrow> string" where
  "dec n = (if n < 10 then [''0123456789'' ! n] else dec (n div 10) @ [''0123456789'' ! (n mod 10)])"

definition big_String :: "int option \<Rightarrow> string" where
  "big_String x =
     (case x of
        None \<Rightarrow> ''<nil>''
      | Some i \<Rightarrow> (if i < 0 then ''-'' @ dec (nat (- i)) else dec (nat i)))"

definition node_values :: "bytes \<Rightarrow> RocketpoolNode \<Rightarrow> (bytes \<times> bytes) \<times> node_cols" where
  "node_values scope d =
     ((scope, RocketpoolNode.Address d),
      \<lparr>timezone_location = TimezoneLocation d, rpl_stake = big_String (RPLStake d),
       min_rpl_stake = big_String (MinRPLStake d), max_rpl_stake = big_String (MaxRPLStake d)\<rparr>)"

definition node_conflict :: "node_cols \<Rightarrow> node_cols \<Rightarrow> node_cols" where
  "node_conflict old excluded =
     old\<lparr>rpl_stake := rpl_stake excluded, min_rpl_stake := min_rpl_stake excluded,
         max_rpl_stake := max_rpl_stake excluded\<rparr>"

definition nodes_stmt :: "bytes \<Rightarrow> RocketpoolNode list \<Rightarrow> DB \<Rightarrow> DB" where
  "nodes_stmt scope batch w =
     w\<lparr>rocketpool_nodes :=
         insert_values node_conflict (map (node_values scope) batch) (rocketpool_nodes w)\<rparr>"

definition proposal_values :: "bytes \<Rightarrow> RocketpoolProposal \<Rightarrow> (bytes \<times> 64 word) \<times> proposal_cols" where
  "proposal_values scope d =
     ((scope, ID d),
      \<lparr>dao = DAO d, proposer_address = ProposerAddress d, message = Message d,
       created_time = CreatedTime d, start_time = StartTime d, end_time = EndTime d,
       expiry_time = ExpiryTime d, votes_required = VotesRequired d, votes_for = VotesFor d,
       votes_against = VotesAgainst d, member_voted = MemberVoted d,
       member_supported = MemberSupported d, is_cancelled = IsCancelled d,
       is_executed = IsExecuted d, payload = Payload d, state = State d\<rparr>)"

definition proposal_conflict :: "proposal_cols \<Rightarrow> proposal_cols \<Rightarrow> proposal_cols" where
  "proposal_conflict old excluded =
     old\<lparr>dao := dao excluded, proposer_address := proposer_address excluded,
         message := message excluded, created_time := created_time excluded,
         start_time := start_time excluded, end_time := end_time excluded,
         expiry_time := expiry_time excluded, votes_required := votes_required excluded,
         votes_for := votes_for excluded, votes_against := votes_against excluded,
         member_voted := member_voted excluded, member_supported := member_supported excluded,
         is_cancelled := is_cancelled excluded, is_executed := is_executed excluded,
         payload := payload excluded, state := state excluded\<rparr>"

definition proposals_stmt :: "bytes \<Rightarrow> RocketpoolProposal list \<Rightarrow> DB \<Rightarrow> DB" where
  "proposals_stmt scope batch w =
     w\<lparr>rocketpool_proposals :=
         insert_values proposal_conflict (map (proposal_values scope) batch) (rocketpool_proposals w)\<rparr>"

text \<open>
  The transaction works on \<open>w\<close>, a copy of the database that shares its journal.
  \<^verbatim>\<open>Commit\<close> makes the copy the database; \<^verbatim>\<open>Rollback\<close> (the deferred call, when the
  transaction is still open) keeps the database \<open>db\<close> as it was at \<^verbatim>\<open>Beginx\<close>.
\<close>

definition Beginx :: "(nat \<Rightarrow> error option) \<Rightarrow> DB \<Rightarrow> error option \<times> DB" where
  "Beginx orc db =
     (case orc (length (journal db)) of
        Some err \<Rightarrow> (Some err, db\<lparr>journal := journal db @ [Begin False]\<rparr>)
      | None \<Rightarrow> (None, db\<lparr>journal := journal db @ [Begin True]\<rparr>))"

definition tx_Exec ::
  "(nat \<Rightarrow> error option) \<Rightarrow> string \<Rightarrow> ('d list \<Rightarrow> DB \<Rightarrow> DB) \<Rightarrow> 'd list \<Rightarrow> DB \<Rightarrow> error option \<times> DB" where
  "tx_Exec orc table stmt batch w =
     (case orc (length (journal w)) of
        Some err \<Rightarrow> (Some err, w\<lparr>journal := journal w @ [Exec table (length batch) False]\<rparr>)
      | None \<Rightarrow>
          (None, (stmt batch w)\<lparr>journal := journal w @ [Exec table (length batch) True]\<rparr>))"

definition tx_Commit :: "(nat \<Rightarrow> error option) \<Rightarrow> DB \<Rightarrow> DB \<Rightarrow> error option \<times> DB" where
  "tx_Commit orc db w =
     (case orc (length (journal w)) of
        Some err \<Rightarrow> (Some err, db\<lparr>journal := journal w @ [Commit False]\<rparr>)
      | None \<Rightarrow> (None, w\<lparr>journal := journal w @ [Commit True]\<rparr>))"

definition tx_Rollback :: "DB \<Rightarrow> DB \<Rightarrow> DB" where
  "tx_Rollback db w = db\<lparr>journal := journal w @ [Rollback]\<rparr>"

definition batchSize :: nat where
  "batchSize = 1000"

text \<open>
  The batch loop, \<^verbatim>\<open>for b := 0; b < len(data); b += batchSize\<close>, with
  \<^verbatim>\<open>data[start:end]\<close> as \<open>take (end - start) (drop start data)\<close>.
\<close>

function save_batches ::
  "(nat \<Rightarrow> error option) \<Rightarrow> string \<Rightarrow> ('d list \<Rightarrow> DB \<Rightarrow> DB) \<Rightarrow> 'd list \<Rightarrow> nat \<Rightarrow> DB \<Rightarrow> error option \<times> DB" where
  "save_batches orc table stmt data b w =
     (if b < length data then
        (let start = b;
             end' = (if length data < b + batchSize then length data else b + batchSize)
         in case tx_Exec orc table stmt (take (end' - start) (drop start data)) w of
              (Some err, w1) \<Rightarrow> (Some err, w1)
            | (None, w1) \<Rightarrow> save_batches orc table stmt data (b + batchSize) w1)
      else (None, w))"
  by pat_completeness auto
termination
  by (relation "measure (\<lambda>(orc, table, stmt, data, b, w). length data - b)")
     (auto simp: batchSize_def)

declare save_batches.simps [simp del]

text \<open>
  What the three \<^verbatim>\<open>Save...\<close> functions share after they have copied the cache into
  \<open>data\<close>: one \<^verbatim>\<open>Beginx\<close>, the batch loop, and \<^verbatim>\<open>Commit\<close> after the loop; the
  deferred \<^verbatim>\<open>Rollback\<close> acts when the loop has returned an error.
\<close>

definition save_tx ::
  "(nat \<Rightarrow> error option) \<Rightarrow> string \<Rightarrow> ('d list \<Rightarrow> DB \<Rightarrow> DB) \<Rightarrow> 'd list \<Rightarrow> DB \<Rightarrow> error option \<times> DB" where
  "save_tx orc table stmt data db =
     (case Beginx orc db of
        (Some err, db1) \<Rightarrow> (Some err, db1)
      | (None, w) \<Rightarrow>
          (case save_batches orc table stmt data 0 w of
             (Some err, w1) \<Rightarrow> (Some err, tx_Rollback db w1)
           | (None, w1) \<Rightarrow> tx_Commit orc db w1))"

definition minipool_data :: "RocketpoolExporter \<Rightarrow> RocketpoolMinipool list" where
  "minipool_data rp = map (\<lambda>(k, mp). cell (minipool_store rp) mp) (MinipoolsByAddress rp)"

definition node_data :: "RocketpoolExporter \<Rightarrow> RocketpoolNode list" where
  "node_data rp = map (\<lambda>(k, node). cell (node_store rp) node) (NodesByAddress rp)"

definition proposal_data :: "RocketpoolExporter \<Rightarrow> RocketpoolProposal list" where
  "proposal_data rp = map (\<lambda>(k, proposal). cell (proposal_store rp) proposal) (ProposalsByID rp)"

definition SaveMinipools ::
  "(nat \<Rightarrow> error option) \<Rightarrow> RocketPool \<Rightarrow> RocketpoolExporter \<Rightarrow> DB \<Rightarrow> error option \<times> DB" where
  "SaveMinipools orc api rp db =
     (if length (MinipoolsByAddress rp) = 0 then (None, db)
      else save_tx orc ''rocketpool_minipools''
             (minipools_stmt (RocketStorageContract_Address api)) (minipool_data rp) db)"

definition SaveNodes ::
  "(nat \<Rightarrow> error option) \<Rightarrow> RocketPool \<Rightarrow> RocketpoolExporter \<Rightarrow> DB \<Rightarrow> error option \<times> DB" where
  "SaveNodes orc api rp db =
     (if length (NodesByAddress rp) = 0 then (None, db)
      else save_tx orc ''rocketpool_nodes''
             (nodes_stmt (RocketStorageContract_Address api)) (node_data rp) db)"

definition SaveProposals ::
  "(nat \<Rightarrow> error option) \<Rightarrow> RocketPool \<Rightarrow> RocketpoolExporter \<Rightarrow> DB \<Rightarrow> error option \<times> DB" where
  "SaveProposals orc api rp db =
     (if length (ProposalsByID rp) = 0 then (None, db)
      else save_tx orc ''rocketpool_proposals''
             (proposals_stmt (RocketStorageContract_Address api)) (proposal_data rp) db)"

definition Save ::
  "(nat \<Rightarrow> error option) \<Rightarrow> RocketPool \<Rightarrow> RocketpoolExporter \<Rightarrow> DB \<Rightarrow> error option \<times> DB" where
  "Save orc api rp db =
     (case SaveMinipools orc api rp db of
        (Some err, db1) \<Rightarrow> (Some err, db1)
      | (None, db1) \<Rightarrow>
          (case SaveNodes orc api rp db1 of
             (Some err, db2) \<Rightarrow> (Some err, db2)
           | (None, db2) \<Rightarrow>
               (case SaveProposals orc api rp db2 of
                  (Some err, db3) \<Rightarrow> (Some err, db3)
                | (None, db3) \<Rightarrow> (None, db3))))"

section \<open>The scheduler\<close>

text \<open>
  \<^verbatim>\<open>Run\<close> does not return. \<open>Run_cycle\<close> is the body of its loop, acting on the engine,
  the database and the trace of what the loop did; \<open>Run n\<close> is the state after \<open>n\<close>
  iterations, the chain answering the \<open>c\<close>-th iteration as \<open>chain c\<close>.
\<close>

datatype run_event =
  LogError string error
| Sleep nat
| LogInfo string
| Tick

definition Run_cycle ::
  "(nat \<Rightarrow> error option) \<Rightarrow> RocketPool \<Rightarrow> RocketpoolExporter \<times> DB \<times> run_event list
     \<Rightarrow> RocketpoolExporter \<times> DB \<times> run_event list" where
  "Run_cycle orc api s =
     (case s of (rp, db, trace) \<Rightarrow>
        (case Update api rp of
           (Some err, rp1) \<Rightarrow>
             (rp1, db, trace @ [LogError ''error updating rocketpool-data'' err, Sleep 2])
         | (None, rp1) \<Rightarrow>
             (case Save orc api rp1 db of
                (Some err, db1) \<Rightarrow>
                  (rp1, db1, trace @ [LogError ''error saving rocketpool-data'' err, Sleep 2])
              | (None, db1) \<Rightarrow>
                  (rp1, db1, trace @ [LogInfo ''exported rocketpool-data'', Tick]))))"

primrec Run ::
  "nat \<Rightarrow> (nat \<Rightarrow> error option) \<Rightarrow> (nat \<Rightarrow> RocketPool) \<Rightarrow> RocketpoolExporter \<times> DB \<times> run_event list
     \<Rightarrow> RocketpoolExporter \<times> DB \<times> run_event list" where
  "Run 0 orc chain s = s"
| "Run (Suc n) orc chain s = Run_cycle orc (chain n) (Run n orc chain s)"

text \<open>
  The startup path \<^verbatim>\<open>rocketpoolExporter\<close>: the constructor, then \<^verbatim>\<open>Run\<close>; an error of
  the constructor is fatal.
\<close>

definition rocketpoolExporter ::
  "nat \<Rightarrow> (nat \<Rightarrow> error option) \<Rightarrow> (nat \<Rightarrow> RocketPool) \<Rightarrow> error + RocketPool \<Rightarrow> DB
     \<Rightarrow> error + RocketpoolExporter \<times> DB \<times> run_event list" where
  "rocketpoolExporter n orc chain dial db =
     (case NewRocketpoolExporter dial of
        Inl err \<Rightarrow> Inl err
      | Inr rpExporter \<Rightarrow> Inr (Run n orc chain (rpExporter, db, [])))"

section \<open>Reading the journal\<close>

text \<open>
  The statements sent to a table, the transactions begun and the transactions committed,
  as the journal records them; and two databases that hold the same rows.
\<close>

fun execs_on :: "string \<Rightarrow> db_event list \<Rightarrow> nat" where
  "execs_on table [] = 0"
| "execs_on table (Exec t n ok # j) = (if t = table then Suc (execs_on table j) else execs_on table j)"
| "execs_on table (_ # j) = execs_on table j"

fun begins :: "db_event list \<Rightarrow> nat" where
  "begins [] = 0"
| "begins (Begin ok # j) = Suc (begins j)"
| "begins (_ # j) = begins j"

fun commits :: "db_event list \<Rightarrow> nat" where
  "commits [] = 0"
| "commits (Commit True # j) = Suc (commits j)"
| "commits (_ # j) = commits j"

definition same_tables :: "DB \<Rightarrow> DB \<Rightarrow> bool" where
  "same_tables a b \<longleftrightarrow>
     rocketpool_minipools a = rocketpool_minipools b \<and>
     rocketpool_nodes a = rocketpool_nodes b \<and>
     rocketpool_proposals a = rocketpool_proposals b"

section \<open>Sample inputs\<close>

text \<open>
  Two chains for the concrete checks below: on \<open>chain_up\<close> every read succeeds, on
  \<open>chain_down\<close> the reads of the mutable attributes fail. Their \<open>Hex\<close> is a stand-in
  for the checksummed rendering.
\<close>

definition addr1 :: Address where
  "addr1 = [0,0,0,0,0,0,0,0,0,0,0,0,0,0,0,0,0,0,0,1]"

definition addr2 :: Address where
  "addr2 = [0,0,0,0,0,0,0,0,0,0,0,0,0,0,0,0,0,0,0,2]"

definition details :: "64 word \<Rightarrow> ProposalDetails" where
  "details pid = \<lparr>pd_ID = pid, pd_DAO = ''rocketDAONodeTrustedProposals'',
     pd_ProposerAddress = addr1, pd_Message = ''invite'', pd_CreatedTime = 100,
     pd_StartTime = 200, pd_EndTime = 300, pd_ExpiryTime = 400, pd_VotesRequired = 3,
     pd_VotesFor = 2, pd_VotesAgainst = 1, pd_MemberVoted = True,
     pd_MemberSupported = True, pd_IsCancelled = False, pd_IsExecuted = False,
     pd_Payload = [7], pd_State = 1\<rparr>"

definition chain_up :: RocketPool where
  "chain_up = \<lparr>RocketStorageContract_Address = [9],
     Hex = (\<lambda>a. ''0x'' @ Sprintf_x a),
     MinipoolStatus_String = (\<lambda>s. if s = 2 then ''Staking'' else ''Initialized''),
     MinipoolDeposit_String = (\<lambda>d. if d = 1 then ''Full'' else ''Half''),
     ProposalState_String = (\<lambda>s. if s = 1 then ''Active'' else ''Pending''),
     GetMinipoolAddresses = Inr [addr1, addr2],
     GetMinipoolPubkey = (\<lambda>a. Inr (a @ [5])),
     NewMinipool = (\<lambda>a. None),
     GetNodeAddress = (\<lambda>a. Inr addr2),
     GetNodeFee = (\<lambda>a. Inr 15),
     GetDepositType = (\<lambda>a. Inr 1),
     GetStatus = (\<lambda>a. Inr 2),
     GetStatusTime = (\<lambda>a. Inr 1630000000),
     GetNodeAddresses = Inr [addr2],
     GetNodeTimezoneLocation = (\<lambda>a. Inr ''Europe/Berlin''),
     GetNodeRPLStake = (\<lambda>a. Inr 500),
     GetNodeMinimumRPLStake = (\<lambda>a. Inr 160),
     GetNodeMaximumRPLStake = (\<lambda>a. Inr 2400),
     GetProposalCount = Inr 1,
     GetProposalDetails = (\<lambda>pid. Inr (details pid)),
     finished = (\<lambda>task. length task)\<rparr>"

definition chain_down :: RocketPool where
  "chain_down = chain_up\<lparr>GetStatusTime := (\<lambda>a. Inl (ChainError 1)),
     GetNodeMinimumRPLStake := (\<lambda>a. Inl (ChainError 2)),
     GetProposalDetails := (\<lambda>pid. Inl (ChainError 3))\<rparr>"

definition minipool1 :: RocketpoolMinipool where
  "minipool1 = \<lparr>RocketpoolMinipool.Address = addr1, Pubkey = [4, 2], NodeAddress = addr2,
     NodeFee = 15, DepositType = ''Half'', Status = ''Prelaunch'', StatusTime = 1620000000\<rparr>"

definition node1 :: RocketpoolNode where
  "node1 = \<lparr>RocketpoolNode.Address = addr2, TimezoneLocation = ''UTC'', RPLStake = Some 100,
     MinRPLStake = Some 10, MaxRPLStake = Some 1000\<rparr>"

definition proposal1 :: RocketpoolProposal where
  "proposal1 = zero_Proposal\<lparr>ID := 1, Message := ''old''\<rparr>"

definition minipool2 :: RocketpoolMinipool where
  "minipool2 = \<lparr>RocketpoolMinipool.Address = addr2, Pubkey = [4, 3], NodeAddress = addr2,
     NodeFee = 20, DepositType = ''Full'', Status = ''Staking'', StatusTime = 1625000000\<rparr>"

definition node2 :: RocketpoolNode where
  "node2 = \<lparr>RocketpoolNode.Address = addr1, TimezoneLocation = ''Asia/Tokyo'', RPLStake = Some 7,
     MinRPLStake = Some 1, MaxRPLStake = Some 70\<rparr>"

definition proposal2 :: RocketpoolProposal where
  "proposal2 = zero_Proposal\<lparr>ID := 2, Message := ''second''\<rparr>"

text \<open>The engine as the constructor builds it, and a database that holds one row of each kind.\<close>

definition fresh_engine :: RocketpoolExporter where
  "fresh_engine = \<lparr>UpdateInterval = 60, MinipoolsByAddress = [], NodesByAddress = [],
     ProposalsByID = [], minipool_store = empty_store zero_Minipool,
     node_store = empty_store zero_Node, proposal_store = empty_store zero_Proposal\<rparr>"

definition stored :: DB where
  "stored = \<lparr>rocketpool_minipools = [minipool_values [9] minipool1],
     rocketpool_nodes = [node_values [9] node1],
     rocketpool_proposals = [proposal_values [9] proposal1],
     journal = []\<rparr>"

text \<open>An engine whose caches hold one minipool and one node, each in cell 0 of its store.\<close>

definition engine1 :: RocketpoolExporter where
  "engine1 = fresh_engine\<lparr>
     MinipoolsByAddress := [(Hex chain_up addr1, 0)],
     minipool_store := \<lparr>cell = (\<lambda>_. zero_Minipool)(0 := minipool1), top = 1\<rparr>,
     NodesByAddress := [(Hex chain_up addr2, 0)],
     node_store := \<lparr>cell = (\<lambda>_. zero_Node)(0 := node1), top = 1\<rparr>\<rparr>"

text \<open>
  An engine with 1001 minipools, an empty database, and a database that fails at its
  \<open>k\<close>-th operation (counted from 0) and at no other.
\<close>

definition addr_of :: "nat \<Rightarrow> Address" where
  "addr_of i = [0,0,0,0,0,0,0,0,0,0,0,0,0,0,0,0,0,0, of_nat (i div 256), of_nat i]"

definition engine_many :: RocketpoolExporter where
  "engine_many = fresh_engine\<lparr>
     MinipoolsByAddress := map (\<lambda>i. (Hex chain_up (addr_of i), i)) [0..<1001],
     minipool_store :=
       \<lparr>cell = (\<lambda>i. minipool1\<lparr>RocketpoolMinipool.Address := addr_of i\<rparr>), top = 1001\<rparr>\<rparr>"

definition empty_db :: DB where
  "empty_db = \<lparr>rocketpool_minipools = [], rocketpool_nodes = [], rocketpool_proposals = [],
     journal = []\<rparr>"

definition fails_at :: "nat \<Rightarrow> nat \<Rightarrow> error option" where
  "fails_at k n = (if n = k then Some (DBError 1) else None)"

text \<open>The attributes that only the creation of an entity sets.\<close>

definition minipool_immutable ::
  "RocketpoolMinipool \<Rightarrow> bytes \<times> bytes \<times> bytes \<times> float64 \<times> string" where
  "minipool_immutable m =
     (RocketpoolMinipool.Address m, Pubkey m, NodeAddress m, NodeFee m, DepositType m)"

definition node_immutable :: "RocketpoolNode \<Rightarrow> bytes \<times> string" where
  "node_immutable n = (RocketpoolNode.Address n, TimezoneLocation n)"

section \<open>Refreshing one entity: all or nothing\<close>

lemma errgroup_Wait_None:
  "errgroup_Wait ts = None \<longleftrightarrow> list_all (\<lambda>t. snd t = None) ts"
proof -
  let ?f = "filter (\<lambda>t. snd t \<noteq> None) ts"
  have s: "set (sort_key fst ?f) = set ?f"
    by simp
  show ?thesis
  proof (cases "sort_key fst ?f")
    case Nil
    then have "set ?f = {}"
      using s by simp
    then show ?thesis
      using Nil by (auto simp: errgroup_Wait_def list_all_iff filter_empty_conv)
  next
    case (Cons t rest)
    then have "t \<in> set ?f"
      using s by (metis list.set_intros(1))
    then show ?thesis
      using Cons by (auto simp: errgroup_Wait_def list_all_iff)
  qed
qed

lemma Minipool_Update_error:
  "fst (RocketpoolMinipool_Update api m) \<noteq> None \<Longrightarrow> snd (RocketpoolMinipool_Update api m) = m"
  by (auto simp: RocketpoolMinipool_Update_def Let_def split: option.splits)

lemma Minipool_Update_error_iff:
  "fst (RocketpoolMinipool_Update api m) \<noteq> None \<longleftrightarrow>
     NewMinipool api (BytesToAddress (RocketpoolMinipool.Address m)) \<noteq> None \<or>
     isl (GetStatus api (BytesToAddress (RocketpoolMinipool.Address m))) \<or>
     isl (GetStatusTime api (BytesToAddress (RocketpoolMinipool.Address m)))"
  by (auto simp: RocketpoolMinipool_Update_def Let_def errgroup_Wait_def err_of_def
      split: option.splits sum.splits)

lemma Minipool_Update_success:
  "fst (RocketpoolMinipool_Update api m) = None \<Longrightarrow>
     snd (RocketpoolMinipool_Update api m) =
       m\<lparr>Status := MinipoolStatus_String api
                     (projr (GetStatus api (BytesToAddress (RocketpoolMinipool.Address m)))),
         StatusTime := projr (GetStatusTime api (BytesToAddress (RocketpoolMinipool.Address m)))\<rparr>"
  by (auto simp: RocketpoolMinipool_Update_def Let_def errgroup_Wait_def err_of_def val_of_def
      split: option.splits sum.splits if_splits)

lemma Node_Update_error:
  "fst (RocketpoolNode_Update api n) \<noteq> None \<Longrightarrow> snd (RocketpoolNode_Update api n) = n"
  by (auto simp: RocketpoolNode_Update_def Let_def split: sum.splits)

lemma Node_Update_error_iff:
  "fst (RocketpoolNode_Update api n) \<noteq> None \<longleftrightarrow>
     isl (GetNodeRPLStake api (BytesToAddress (RocketpoolNode.Address n))) \<or>
     isl (GetNodeMinimumRPLStake api (BytesToAddress (RocketpoolNode.Address n))) \<or>
     isl (GetNodeMaximumRPLStake api (BytesToAddress (RocketpoolNode.Address n)))"
  by (auto simp: RocketpoolNode_Update_def Let_def split: sum.splits)

lemma Node_Update_success:
  "fst (RocketpoolNode_Update api n) = None \<Longrightarrow>
     snd (RocketpoolNode_Update api n) =
       n\<lparr>RPLStake := Some (projr (GetNodeRPLStake api (BytesToAddress (RocketpoolNode.Address n)))),
         MinRPLStake :=
           Some (projr (GetNodeMinimumRPLStake api (BytesToAddress (RocketpoolNode.Address n)))),
         MaxRPLStake :=
           Some (projr (GetNodeMaximumRPLStake api (BytesToAddress (RocketpoolNode.Address n))))\<rparr>"
  by (auto simp: RocketpoolNode_Update_def Let_def split: sum.splits)

lemma Proposal_Update_error:
  "fst (RocketpoolProposal_Update api p) \<noteq> None \<Longrightarrow> snd (RocketpoolProposal_Update api p) = p"
  by (auto simp: RocketpoolProposal_Update_def split: sum.splits)

lemma Proposal_Update_error_iff:
  "fst (RocketpoolProposal_Update api p) \<noteq> None \<longleftrightarrow> isl (GetProposalDetails api (ID p))"
  by (auto simp: RocketpoolProposal_Update_def split: sum.splits)

text \<open>
  Claim C6. A refresh of one cached entity is all or nothing, for each of the three
  kinds: it returns an error exactly when one of its reads fails, and then the struct
  is left as it was, every field; when it returns no error, the mutable fields of a
  minipool and of a node hold the values just read (the fields of a proposal are then
  those of the details read, by the definition of the refresh).
\<close>

theorem update_all_or_nothing:
  "(fst (RocketpoolMinipool_Update api m) \<noteq> None \<longrightarrow> snd (RocketpoolMinipool_Update api m) = m) \<and>
   (fst (RocketpoolMinipool_Update api m) \<noteq> None \<longleftrightarrow>
      NewMinipool api (BytesToAddress (RocketpoolMinipool.Address m)) \<noteq> None \<or>
      isl (GetStatus api (BytesToAddress (RocketpoolMinipool.Address m))) \<or>
      isl (GetStatusTime api (BytesToAddress (RocketpoolMinipool.Address m)))) \<and>
   (fst (RocketpoolMinipool_Update api m) = None \<longrightarrow>
      snd (RocketpoolMinipool_Update api m) =
        m\<lparr>Status := MinipoolStatus_String api
                      (projr (GetStatus api (BytesToAddress (RocketpoolMinipool.Address m)))),
          StatusTime := projr (GetStatusTime api (BytesToAddress (RocketpoolMinipool.Address m)))\<rparr>) \<and>
   (fst (RocketpoolNode_Update api n) \<noteq> None \<longrightarrow> snd (RocketpoolNode_Update api n) = n) \<and>
   (fst (RocketpoolNode_Update api n) \<noteq> None \<longleftrightarrow>
      isl (GetNodeRPLStake api (BytesToAddress (RocketpoolNode.Address n))) \<or>
      isl (GetNodeMinimumRPLStake api (BytesToAddress (RocketpoolNode.Address n))) \<or>
      isl (GetNodeMaximumRPLStake api (BytesToAddress (RocketpoolNode.Address n)))) \<and>
   (fst (RocketpoolNode_Update api n) = None \<longrightarrow>
      snd (RocketpoolNode_Update api n) =
        n\<lparr>RPLStake := Some (projr (GetNodeRPLStake api (BytesToAddress (RocketpoolNode.Address n)))),
          MinRPLStake :=
            Some (projr (GetNodeMinimumRPLStake api (BytesToAddress (RocketpoolNode.Address n)))),
          MaxRPLStake :=
            Some (projr (GetNodeMaximumRPLStake api (BytesToAddress (RocketpoolNode.Address n))))\<rparr>) \<and>
   (fst (RocketpoolProposal_Update api p) \<noteq> None \<longrightarrow> snd (RocketpoolProposal_Update api p) = p) \<and>
   (fst (RocketpoolProposal_Update api p) \<noteq> None \<longleftrightarrow> isl (GetProposalDetails api (ID p)))"
  using Minipool_Update_error [of api m] Minipool_Update_error_iff [of api m]
    Minipool_Update_success [of api m] Node_Update_error [of api n]
    Node_Update_error_iff [of api n] Node_Update_success [of api n]
    Proposal_Update_error [of api p] Proposal_Update_error_iff [of api p]
  by blast

theorem update_all_or_nothing_witness:
  "fst (RocketpoolMinipool_Update chain_down minipool1) \<noteq> None \<and>
   snd (RocketpoolMinipool_Update chain_down minipool1) = minipool1 \<and>
   fst (RocketpoolNode_Update chain_down node1) \<noteq> None \<and>
   snd (RocketpoolNode_Update chain_down node1) = node1 \<and>
   fst (RocketpoolProposal_Update chain_down proposal1) \<noteq> None \<and>
   snd (RocketpoolProposal_Update chain_down proposal1) = proposal1 \<and>
   fst (RocketpoolMinipool_Update chain_up minipool1) = None \<and>
   snd (RocketpoolMinipool_Update chain_up minipool1) =
     minipool1\<lparr>Status := ''Staking'', StatusTime := 1630000000\<rparr> \<and>
   fst (RocketpoolNode_Update chain_up node1) = None \<and>
   snd (RocketpoolNode_Update chain_up node1) =
     node1\<lparr>RPLStake := Some 500, MinRPLStake := Some 160, MaxRPLStake := Some 2400\<rparr>"
proof -
  have m: "isl (GetStatusTime chain_down (BytesToAddress (RocketpoolMinipool.Address minipool1)))"
    by (simp add: chain_down_def chain_up_def)
  have n: "isl (GetNodeMinimumRPLStake chain_down (BytesToAddress (RocketpoolNode.Address node1)))"
    by (simp add: chain_down_def chain_up_def)
  have p: "isl (GetProposalDetails chain_down (ID proposal1))"
    by (simp add: chain_down_def chain_up_def)
  have um: "NewMinipool chain_up (BytesToAddress (RocketpoolMinipool.Address minipool1)) = None"
    "GetStatus chain_up (BytesToAddress (RocketpoolMinipool.Address minipool1)) = Inr 2"
    "GetStatusTime chain_up (BytesToAddress (RocketpoolMinipool.Address minipool1)) = Inr 1630000000"
    "MinipoolStatus_String chain_up 2 = ''Staking''"
    by (simp_all add: chain_up_def)
  have un: "GetNodeRPLStake chain_up (BytesToAddress (RocketpoolNode.Address node1)) = Inr 500"
    "GetNodeMinimumRPLStake chain_up (BytesToAddress (RocketpoolNode.Address node1)) = Inr 160"
    "GetNodeMaximumRPLStake chain_up (BytesToAddress (RocketpoolNode.Address node1)) = Inr 2400"
    by (simp_all add: chain_up_def)
  show ?thesis
    using update_all_or_nothing [of chain_down minipool1 node1 proposal1]
      update_all_or_nothing [of chain_up minipool1 node1 proposal1] m n p
    by (simp add: um un)
qed

section \<open>Proposal refresh: the keys of the cache\<close>

text \<open>
  Claim C1 says that after a successful \<^verbatim>\<open>UpdateProposals\<close> the cache has an entry under
  every id from 1 to the proposal count, each holding the proposal of that id. The loop
  reads proposal \<open>i + 1\<close> and stores it under the key \<open>i\<close>. On a chain that reports one
  proposal, starting from the engine the constructor returns, the refresh succeeds, the
  only key of the cache is 0, the entry under it holds the proposal with id 1, and there
  is no entry under the key 1.
\<close>

theorem UpdateProposals_stores_under_preceding_key:
  "NewRocketpoolExporter (Inr chain_up) = Inr fresh_engine \<and>
   GetProposalCount chain_up = Inr 1 \<and>
   fst (UpdateProposals chain_up fresh_engine) = None \<and>
   ProposalsByID (snd (UpdateProposals chain_up fresh_engine)) = [(0, 0)] \<and>
   ID (cell (proposal_store (snd (UpdateProposals chain_up fresh_engine))) 0) = 1 \<and>
   map_of (ProposalsByID (snd (UpdateProposals chain_up fresh_engine))) 1 = None"
  by (simp add: UpdateProposals_def chain_up_def fresh_engine_def NewRocketpoolProposal_def
      NewRocketpoolExporter_def RocketpoolProposal_Update_def new_def put_def empty_store_def
      Let_def details_def)

section \<open>Startup: the caches are not seeded\<close>

text \<open>
  Claim C4 says that the engine obtained at startup has its caches seeded with the rows
  of durable storage before the first cycle. The startup path calls the constructor and
  then \<^verbatim>\<open>Run\<close>; neither calls \<^verbatim>\<open>Init\<close>. With a database that holds a row of each kind,
  the state in which the first cycle starts (no iteration done yet) has three empty
  caches, for every chain and every behaviour of the database.
\<close>

theorem startup_leaves_caches_empty:
  "rocketpool_minipools stored \<noteq> [] \<and> rocketpool_nodes stored \<noteq> [] \<and>
   rocketpool_proposals stored \<noteq> [] \<and>
   rocketpoolExporter 0 orc chain (Inr chain_up) stored = Inr (fresh_engine, stored, []) \<and>
   MinipoolsByAddress fresh_engine = [] \<and> NodesByAddress fresh_engine = [] \<and>
   ProposalsByID fresh_engine = []"
  by (simp add: rocketpoolExporter_def NewRocketpoolExporter_def fresh_engine_def stored_def)

section \<open>The initial load: every key points to the last row\<close>

text \<open>
  Claim C5 says that after the initial load over rows with distinct identifiers the cache
  maps each row's identifier to that row's values. Every entry is the address of the one
  loop variable, which holds the last row when the loop ends. Loading two rows, for each
  of the three kinds: the key of the first row maps to cell 0, and cell 0 holds the
  second row, which differs from the first.
\<close>

theorem Init_entries_hold_last_row:
  "map_of (MinipoolsByAddress (snd (InitMinipools (Inr [minipool1, minipool2]) fresh_engine)))
      (Sprintf_x (RocketpoolMinipool.Address minipool1)) = Some 0 \<and>
   cell (minipool_store (snd (InitMinipools (Inr [minipool1, minipool2]) fresh_engine))) 0 = minipool2 \<and>
   minipool2 \<noteq> minipool1 \<and>
   map_of (NodesByAddress (snd (InitNodes (Inr [node1, node2]) fresh_engine)))
      (Sprintf_x (RocketpoolNode.Address node1)) = Some 0 \<and>
   cell (node_store (snd (InitNodes (Inr [node1, node2]) fresh_engine))) 0 = node2 \<and>
   node2 \<noteq> node1 \<and>
   map_of (ProposalsByID (snd (InitProposals (Inr [proposal1, proposal2]) fresh_engine)))
      (ID proposal1) = Some 0 \<and>
   cell (proposal_store (snd (InitProposals (Inr [proposal1, proposal2]) fresh_engine))) 0 = proposal2 \<and>
   proposal2 \<noteq> proposal1"
  by (simp add: InitMinipools_def InitNodes_def InitProposals_def fresh_engine_def new_def
      put_def empty_store_def minipool1_def minipool2_def node1_def node2_def proposal1_def
      proposal2_def zero_Proposal_def addr1_def addr2_def Sprintf_x_def hex_byte_def)

section \<open>Discovery: the keys after a refresh\<close>

lemma keys_update: "fst ` set (AList.update k v al) = insert k (fst ` set al)"
  by (simp add: dom_update)

lemma map_of_Some_key: "map_of al k = Some v \<Longrightarrow> k \<in> fst ` set al"
  by (metis map_of_eq_None_iff option.distinct(1))

lemma UpdateMinipools_loop_keys:
  "UpdateMinipools_loop api as rp = (None, rp') \<Longrightarrow>
     fst ` set (MinipoolsByAddress rp') = fst ` set (MinipoolsByAddress rp) \<union> Hex api ` set as"
proof (induction as arbitrary: rp)
  case Nil
  then show ?case by simp
next
  case (Cons a as)
  show ?case
  proof (cases "map_of (MinipoolsByAddress rp) (Hex api a)")
    case None
    obtain r h where new: "NewRocketpoolMinipool api a (minipool_store rp) = (r, h)"
      by (cases "NewRocketpoolMinipool api a (minipool_store rp)")
    show ?thesis
    proof (cases r)
      case (Inl err)
      with Cons.prems None new show ?thesis by simp
    next
      case (Inr mp)
      with Cons.prems None new have
        "UpdateMinipools_loop api as
           (rp\<lparr>minipool_store := h,
               MinipoolsByAddress := AList.update (Hex api a) mp (MinipoolsByAddress rp)\<rparr>) = (None, rp')"
        by simp
      from Cons.IH [OF this] show ?thesis
        by (simp add: keys_update)
    qed
  next
    case (Some mp)
    obtain e this where upd:
      "RocketpoolMinipool_Update api (cell (minipool_store rp) mp) = (e, this)"
      by (cases "RocketpoolMinipool_Update api (cell (minipool_store rp) mp)")
    show ?thesis
    proof (cases e)
      case None
      with Cons.prems Some upd have
        "UpdateMinipools_loop api as (rp\<lparr>minipool_store := put mp this (minipool_store rp)\<rparr>) = (None, rp')"
        by simp
      from Cons.IH [OF this] map_of_Some_key [OF Some] show ?thesis
        by auto
    next
      case (Some err)
      with Cons.prems \<open>map_of (MinipoolsByAddress rp) (Hex api a) = Some mp\<close> upd show ?thesis
        by simp
    qed
  qed
qed

lemma UpdateNodes_loop_keys:
  "UpdateNodes_loop api as rp = (None, rp') \<Longrightarrow>
     fst ` set (NodesByAddress rp') = fst ` set (NodesByAddress rp) \<union> Hex api ` set as"
proof (induction as arbitrary: rp)
  case Nil
  then show ?case by simp
next
  case (Cons a as)
  show ?case
  proof (cases "map_of (NodesByAddress rp) (Hex api a)")
    case None
    obtain r h where new: "NewRocketpoolNode api a (node_store rp) = (r, h)"
      by (cases "NewRocketpoolNode api a (node_store rp)")
    show ?thesis
    proof (cases r)
      case (Inl err)
      with Cons.prems None new show ?thesis by simp
    next
      case (Inr node)
      with Cons.prems None new have
        "UpdateNodes_loop api as
           (rp\<lparr>node_store := h,
               NodesByAddress := AList.update (Hex api a) node (NodesByAddress rp)\<rparr>) = (None, rp')"
        by simp
      from Cons.IH [OF this] show ?thesis
        by (simp add: keys_update)
    qed
  next
    case (Some node)
    obtain e this where upd:
      "RocketpoolNode_Update api (cell (node_store rp) node) = (e, this)"
      by (cases "RocketpoolNode_Update api (cell (node_store rp) node)")
    show ?thesis
    proof (cases e)
      case None
      with Cons.prems Some upd have
        "UpdateNodes_loop api as (rp\<lparr>node_store := put node this (node_store rp)\<rparr>) = (None, rp')"
        by simp
      from Cons.IH [OF this] map_of_Some_key [OF Some] show ?thesis
        by auto
    next
      case (Some err)
      with Cons.prems \<open>map_of (NodesByAddress rp) (Hex api a) = Some node\<close> upd show ?thesis
        by simp
    qed
  qed
qed

text \<open>
  Claim C7. When the keys of the cache are among the renderings of the identifiers that
  the chain lists, then after one successful refresh of the minipools, and likewise of
  the nodes, the keys of the cache are exactly the renderings of the listed
  identifiers: every listed identifier has an entry and no other key exists.
\<close>

theorem refresh_keys_are_listed_identifiers:
  "(GetMinipoolAddresses api = Inr maddrs \<longrightarrow>
      fst ` set (MinipoolsByAddress rp) \<subseteq> Hex api ` set maddrs \<longrightarrow>
      UpdateMinipools api rp = (None, rpm) \<longrightarrow>
      fst ` set (MinipoolsByAddress rpm) = Hex api ` set maddrs) \<and>
   (GetNodeAddresses api = Inr naddrs \<longrightarrow>
      fst ` set (NodesByAddress rp) \<subseteq> Hex api ` set naddrs \<longrightarrow>
      UpdateNodes api rp = (None, rpn) \<longrightarrow>
      fst ` set (NodesByAddress rpn) = Hex api ` set naddrs)"
proof (intro conjI impI)
  assume "GetMinipoolAddresses api = Inr maddrs"
    and sub: "fst ` set (MinipoolsByAddress rp) \<subseteq> Hex api ` set maddrs"
    and "UpdateMinipools api rp = (None, rpm)"
  then have "UpdateMinipools_loop api maddrs rp = (None, rpm)"
    by (simp add: UpdateMinipools_def)
  from UpdateMinipools_loop_keys [OF this] sub
  show "fst ` set (MinipoolsByAddress rpm) = Hex api ` set maddrs"
    by blast
next
  assume "GetNodeAddresses api = Inr naddrs"
    and sub: "fst ` set (NodesByAddress rp) \<subseteq> Hex api ` set naddrs"
    and "UpdateNodes api rp = (None, rpn)"
  then have "UpdateNodes_loop api naddrs rp = (None, rpn)"
    by (simp add: UpdateNodes_def)
  from UpdateNodes_loop_keys [OF this] sub
  show "fst ` set (NodesByAddress rpn) = Hex api ` set naddrs"
    by blast
qed

lemmas refresh_eval = UpdateMinipools_def UpdateNodes_def chain_up_def engine1_def fresh_engine_def
  NewRocketpoolMinipool_def NewRocketpoolNode_def RocketpoolMinipool_Update_def
  RocketpoolNode_Update_def new_def put_def empty_store_def Let_def BytesToAddress_def
  errgroup_Wait_def err_of_def val_of_def addr1_def addr2_def minipool1_def node1_def
  Sprintf_x_def hex_byte_def zero_Minipool_def zero_Node_def

theorem refresh_keys_are_listed_identifiers_witness:
  "fst ` set (MinipoolsByAddress (snd (UpdateMinipools chain_up engine1))) =
     Hex chain_up ` set [addr1, addr2] \<and>
   fst ` set (NodesByAddress (snd (UpdateNodes chain_up engine1))) = Hex chain_up ` set [addr2]"
proof -
  have m1: "GetMinipoolAddresses chain_up = Inr [addr1, addr2]"
    and n1: "GetNodeAddresses chain_up = Inr [addr2]"
    by (simp_all add: chain_up_def)
  have m2: "fst ` set (MinipoolsByAddress engine1) \<subseteq> Hex chain_up ` set [addr1, addr2]"
    and n2: "fst ` set (NodesByAddress engine1) \<subseteq> Hex chain_up ` set [addr2]"
    by (simp_all add: engine1_def fresh_engine_def)
  have m3: "fst (UpdateMinipools chain_up engine1) = None"
    by (simp add: refresh_eval)
  have n3: "fst (UpdateNodes chain_up engine1) = None"
    by (simp add: refresh_eval)
  have m4: "UpdateMinipools chain_up engine1 = (None, snd (UpdateMinipools chain_up engine1))"
    using m3 by (metis prod.collapse)
  have n4: "UpdateNodes chain_up engine1 = (None, snd (UpdateNodes chain_up engine1))"
    using n3 by (metis prod.collapse)
  show ?thesis
    using refresh_keys_are_listed_identifiers [of chain_up "[addr1, addr2]" engine1
        "snd (UpdateMinipools chain_up engine1)" "[addr2]" "snd (UpdateNodes chain_up engine1)"]
      m1 m2 m4 n1 n2 n4
    by blast
qed

section \<open>Identity stability: what a refresh leaves alone\<close>

lemma Minipool_Update_immutable:
  "minipool_immutable (snd (RocketpoolMinipool_Update api m)) = minipool_immutable m"
  by (simp add: RocketpoolMinipool_Update_def minipool_immutable_def Let_def split: option.splits)

lemma Node_Update_immutable:
  "node_immutable (snd (RocketpoolNode_Update api n)) = node_immutable n"
  by (simp add: RocketpoolNode_Update_def node_immutable_def Let_def split: sum.splits)

lemma NewRocketpoolMinipool_frame:
  "NewRocketpoolMinipool api a h = (r, h') \<Longrightarrow>
     top h \<le> top h' \<and> (\<forall>p < top h. cell h' p = cell h p)"
  by (auto simp: NewRocketpoolMinipool_def new_def put_def Let_def
      split: sum.splits option.splits prod.splits)

lemma NewRocketpoolNode_frame:
  "NewRocketpoolNode api a h = (r, h') \<Longrightarrow>
     top h \<le> top h' \<and> (\<forall>p < top h. cell h' p = cell h p)"
  by (auto simp: NewRocketpoolNode_def new_def put_def Let_def
      split: sum.splits option.splits prod.splits)

lemma UpdateMinipools_loop_frame:
  "UpdateMinipools_loop api as rp = (e, rp') \<Longrightarrow>
     top (minipool_store rp) \<le> top (minipool_store rp') \<and>
     (\<forall>p < top (minipool_store rp).
        minipool_immutable (cell (minipool_store rp') p) = minipool_immutable (cell (minipool_store rp) p)) \<and>
     (\<forall>k p. map_of (MinipoolsByAddress rp) k = Some p \<longrightarrow> map_of (MinipoolsByAddress rp') k = Some p)"
proof (induction as arbitrary: rp)
  case Nil
  then show ?case by simp
next
  case (Cons a as)
  show ?case
  proof (cases "map_of (MinipoolsByAddress rp) (Hex api a)")
    case None
    obtain r h where new: "NewRocketpoolMinipool api a (minipool_store rp) = (r, h)"
      by (cases "NewRocketpoolMinipool api a (minipool_store rp)")
    note fr = NewRocketpoolMinipool_frame [OF new]
    show ?thesis
    proof (cases r)
      case (Inl err)
      with Cons.prems None new have "rp' = rp\<lparr>minipool_store := h\<rparr>"
        by simp
      with fr show ?thesis by simp
    next
      case (Inr mp)
      let ?rp1 = "rp\<lparr>minipool_store := h,
        MinipoolsByAddress := AList.update (Hex api a) mp (MinipoolsByAddress rp)\<rparr>"
      from Inr Cons.prems None new have "UpdateMinipools_loop api as ?rp1 = (e, rp')"
        by simp
      note ih = Cons.IH [OF this]
      have keep: "map_of (MinipoolsByAddress ?rp1) k = Some p"
        if "map_of (MinipoolsByAddress rp) k = Some p" for k p
        using that None by (auto simp: update_conv')
      from ih fr keep show ?thesis
        by auto
    qed
  next
    case (Some mp)
    obtain e1 this where upd:
      "RocketpoolMinipool_Update api (cell (minipool_store rp) mp) = (e1, this)"
      by (cases "RocketpoolMinipool_Update api (cell (minipool_store rp) mp)")
    have imm: "minipool_immutable this = minipool_immutable (cell (minipool_store rp) mp)"
      using Minipool_Update_immutable [of api "cell (minipool_store rp) mp"] upd by simp
    let ?rp1 = "rp\<lparr>minipool_store := put mp this (minipool_store rp)\<rparr>"
    have step: "top (minipool_store ?rp1) = top (minipool_store rp) \<and>
      (\<forall>p. minipool_immutable (cell (minipool_store ?rp1) p) = minipool_immutable (cell (minipool_store rp) p)) \<and>
      MinipoolsByAddress ?rp1 = MinipoolsByAddress rp"
      using imm by (simp add: put_def)
    show ?thesis
    proof (cases e1)
      case None
      with Cons.prems Some upd have "UpdateMinipools_loop api as ?rp1 = (e, rp')"
        by simp
      from Cons.IH [OF this] step show ?thesis
        by simp
    next
      case (Some err)
      with Cons.prems \<open>map_of (MinipoolsByAddress rp) (Hex api a) = Some mp\<close> upd
      have "rp' = ?rp1" by simp
      with step show ?thesis by simp
    qed
  qed
qed

lemma UpdateNodes_loop_frame:
  "UpdateNodes_loop api as rp = (e, rp') \<Longrightarrow>
     top (node_store rp) \<le> top (node_store rp') \<and>
     (\<forall>p < top (node_store rp).
        node_immutable (cell (node_store rp') p) = node_immutable (cell (node_store rp) p)) \<and>
     (\<forall>k p. map_of (NodesByAddress rp) k = Some p \<longrightarrow> map_of (NodesByAddress rp') k = Some p)"
proof (induction as arbitrary: rp)
  case Nil
  then show ?case by simp
next
  case (Cons a as)
  show ?case
  proof (cases "map_of (NodesByAddress rp) (Hex api a)")
    case None
    obtain r h where new: "NewRocketpoolNode api a (node_store rp) = (r, h)"
      by (cases "NewRocketpoolNode api a (node_store rp)")
    note fr = NewRocketpoolNode_frame [OF new]
    show ?thesis
    proof (cases r)
      case (Inl err)
      with Cons.prems None new have "rp' = rp\<lparr>node_store := h\<rparr>"
        by simp
      with fr show ?thesis by simp
    next
      case (Inr node)
      let ?rp1 = "rp\<lparr>node_store := h,
        NodesByAddress := AList.update (Hex api a) node (NodesByAddress rp)\<rparr>"
      from Inr Cons.prems None new have "UpdateNodes_loop api as ?rp1 = (e, rp')"
        by simp
      note ih = Cons.IH [OF this]
      have keep: "map_of (NodesByAddress ?rp1) k = Some p"
        if "map_of (NodesByAddress rp) k = Some p" for k p
        using that None by (auto simp: update_conv')
      from ih fr keep show ?thesis
        by auto
    qed
  next
    case (Some node)
    obtain e1 this where upd:
      "RocketpoolNode_Update api (cell (node_store rp) node) = (e1, this)"
      by (cases "RocketpoolNode_Update api (cell (node_store rp) node)")
    have imm: "node_immutable this = node_immutable (cell (node_store rp) node)"
      using Node_Update_immutable [of api "cell (node_store rp) node"] upd by simp
    let ?rp1 = "rp\<lparr>node_store := put node this (node_store rp)\<rparr>"
    have step: "top (node_store ?rp1) = top (node_store rp) \<and>
      (\<forall>p. node_immutable (cell (node_store ?rp1) p) = node_immutable (cell (node_store rp) p)) \<and>
      NodesByAddress ?rp1 = NodesByAddress rp"
      using imm by (simp add: put_def)
    show ?thesis
    proof (cases e1)
      case None
      with Cons.prems Some upd have "UpdateNodes_loop api as ?rp1 = (e, rp')"
        by simp
      from Cons.IH [OF this] step show ?thesis
        by simp
    next
      case (Some err)
      with Cons.prems \<open>map_of (NodesByAddress rp) (Hex api a) = Some node\<close> upd
      have "rp' = ?rp1" by simp
      with step show ?thesis by simp
    qed
  qed
qed

text \<open>
  Claim C8. A refresh of the minipools, and likewise of the nodes, whether it succeeds
  or stops with an error, leaves every identifier that was in the cache in the cache,
  bound to the same struct, and leaves the immutable attributes of that struct as they
  were: address, public key, node address, node fee and deposit type of a minipool,
  address and timezone label of a node. The struct is one that has been allocated.
\<close>

theorem refresh_keeps_identity_and_immutable_attributes:
  "(UpdateMinipools api rp = (em, rpm) \<longrightarrow>
      map_of (MinipoolsByAddress rp) km = Some pm \<longrightarrow>
      pm < top (minipool_store rp) \<longrightarrow>
      map_of (MinipoolsByAddress rpm) km = Some pm \<and>
      RocketpoolMinipool.Address (cell (minipool_store rpm) pm) =
        RocketpoolMinipool.Address (cell (minipool_store rp) pm) \<and>
      Pubkey (cell (minipool_store rpm) pm) = Pubkey (cell (minipool_store rp) pm) \<and>
      NodeAddress (cell (minipool_store rpm) pm) = NodeAddress (cell (minipool_store rp) pm) \<and>
      NodeFee (cell (minipool_store rpm) pm) = NodeFee (cell (minipool_store rp) pm) \<and>
      DepositType (cell (minipool_store rpm) pm) = DepositType (cell (minipool_store rp) pm)) \<and>
   (UpdateNodes api rp = (en, rpn) \<longrightarrow>
      map_of (NodesByAddress rp) kn = Some pn \<longrightarrow>
      pn < top (node_store rp) \<longrightarrow>
      map_of (NodesByAddress rpn) kn = Some pn \<and>
      RocketpoolNode.Address (cell (node_store rpn) pn) =
        RocketpoolNode.Address (cell (node_store rp) pn) \<and>
      TimezoneLocation (cell (node_store rpn) pn) = TimezoneLocation (cell (node_store rp) pn))"
proof (intro conjI impI)
  assume u: "UpdateMinipools api rp = (em, rpm)"
    and k: "map_of (MinipoolsByAddress rp) km = Some pm"
    and p: "pm < top (minipool_store rp)"
  have fr: "(\<forall>p < top (minipool_store rp).
        minipool_immutable (cell (minipool_store rpm) p) =
        minipool_immutable (cell (minipool_store rp) p)) \<and>
     (\<forall>k p. map_of (MinipoolsByAddress rp) k = Some p \<longrightarrow>
        map_of (MinipoolsByAddress rpm) k = Some p)"
  proof (cases "GetMinipoolAddresses api")
    case (Inl err)
    with u show ?thesis by (simp add: UpdateMinipools_def)
  next
    case (Inr as)
    with u have "UpdateMinipools_loop api as rp = (em, rpm)"
      by (simp add: UpdateMinipools_def)
    from UpdateMinipools_loop_frame [OF this] show ?thesis by blast
  qed
  from fr k show "map_of (MinipoolsByAddress rpm) km = Some pm"
    by blast
  from fr p have "minipool_immutable (cell (minipool_store rpm) pm) =
      minipool_immutable (cell (minipool_store rp) pm)"
    by blast
  then show "RocketpoolMinipool.Address (cell (minipool_store rpm) pm) =
        RocketpoolMinipool.Address (cell (minipool_store rp) pm)"
    and "Pubkey (cell (minipool_store rpm) pm) = Pubkey (cell (minipool_store rp) pm)"
    and "NodeAddress (cell (minipool_store rpm) pm) = NodeAddress (cell (minipool_store rp) pm)"
    and "NodeFee (cell (minipool_store rpm) pm) = NodeFee (cell (minipool_store rp) pm)"
    and "DepositType (cell (minipool_store rpm) pm) = DepositType (cell (minipool_store rp) pm)"
    by (simp_all add: minipool_immutable_def)
next
  assume u: "UpdateNodes api rp = (en, rpn)"
    and k: "map_of (NodesByAddress rp) kn = Some pn"
    and p: "pn < top (node_store rp)"
  have fr: "(\<forall>p < top (node_store rp).
        node_immutable (cell (node_store rpn) p) = node_immutable (cell (node_store rp) p)) \<and>
     (\<forall>k p. map_of (NodesByAddress rp) k = Some p \<longrightarrow> map_of (NodesByAddress rpn) k = Some p)"
  proof (cases "GetNodeAddresses api")
    case (Inl err)
    with u show ?thesis by (simp add: UpdateNodes_def)
  next
    case (Inr as)
    with u have "UpdateNodes_loop api as rp = (en, rpn)"
      by (simp add: UpdateNodes_def)
    from UpdateNodes_loop_frame [OF this] show ?thesis by blast
  qed
  from fr k show "map_of (NodesByAddress rpn) kn = Some pn"
    by blast
  from fr p have "node_immutable (cell (node_store rpn) pn) =
      node_immutable (cell (node_store rp) pn)"
    by blast
  then show "RocketpoolNode.Address (cell (node_store rpn) pn) =
        RocketpoolNode.Address (cell (node_store rp) pn)"
    and "TimezoneLocation (cell (node_store rpn) pn) = TimezoneLocation (cell (node_store rp) pn)"
    by (simp_all add: node_immutable_def)
qed

theorem refresh_keeps_identity_and_immutable_attributes_witness:
  "map_of (MinipoolsByAddress (snd (UpdateMinipools chain_up engine1))) (Hex chain_up addr1) = Some 0 \<and>
   RocketpoolMinipool.Address (cell (minipool_store (snd (UpdateMinipools chain_up engine1))) 0) = addr1 \<and>
   Pubkey (cell (minipool_store (snd (UpdateMinipools chain_up engine1))) 0) = [4, 2] \<and>
   NodeAddress (cell (minipool_store (snd (UpdateMinipools chain_up engine1))) 0) = addr2 \<and>
   NodeFee (cell (minipool_store (snd (UpdateMinipools chain_up engine1))) 0) = 15 \<and>
   DepositType (cell (minipool_store (snd (UpdateMinipools chain_up engine1))) 0) = ''Half'' \<and>
   map_of (NodesByAddress (snd (UpdateNodes chain_up engine1))) (Hex chain_up addr2) = Some 0 \<and>
   RocketpoolNode.Address (cell (node_store (snd (UpdateNodes chain_up engine1))) 0) = addr2 \<and>
   TimezoneLocation (cell (node_store (snd (UpdateNodes chain_up engine1))) 0) = ''UTC''"
proof -
  have m: "map_of (MinipoolsByAddress engine1) (Hex chain_up addr1) = Some 0"
    "0 < top (minipool_store engine1)"
    "cell (minipool_store engine1) 0 = minipool1"
    by (simp_all add: engine1_def fresh_engine_def)
  have n: "map_of (NodesByAddress engine1) (Hex chain_up addr2) = Some 0"
    "0 < top (node_store engine1)"
    "cell (node_store engine1) 0 = node1"
    by (simp_all add: engine1_def fresh_engine_def)
  show ?thesis
    using refresh_keeps_identity_and_immutable_attributes [of chain_up engine1
        "fst (UpdateMinipools chain_up engine1)" "snd (UpdateMinipools chain_up engine1)"
        "Hex chain_up addr1" 0
        "fst (UpdateNodes chain_up engine1)" "snd (UpdateNodes chain_up engine1)"
        "Hex chain_up addr2" 0] m n
    by (simp add: minipool1_def node1_def)
qed

section \<open>The batch loop\<close>

lemma execs_on_append [simp]: "execs_on t (j @ k) = execs_on t j + execs_on t k"
  by (induction t j rule: execs_on.induct) simp_all

lemma begins_append [simp]: "begins (j @ k) = begins j + begins k"
  by (induction j rule: begins.induct) simp_all

lemma commits_append [simp]: "commits (j @ k) = commits j + commits k"
  by (induction j rule: commits.induct) simp_all

lemma ceil_step:
  assumes "b < (n::nat)" "0 < k"
  shows "(n - b + k - 1) div k = Suc ((n - (b + k) + k - 1) div k)"
proof (cases "b + k \<le> n")
  case True
  define m where "m = n - (b + k)"
  have "n - b + k - 1 = (m + k - 1) + k" using True assms by (simp add: m_def)
  moreover have "((m + k - 1) + k) div k = Suc ((m + k - 1) div k)"
    using assms(2) by (metis add.commute div_add_self1 less_numeral_extra(3) plus_1_eq_Suc)
  ultimately show ?thesis by (simp add: m_def)
next
  case False
  define r where "r = n - b - 1"
  have r: "r < k" "n - b + k - 1 = k + r" "n - (b + k) = 0" using False assms by (simp_all add: r_def)
  have "(k + r) div k = 1" using r(1) assms(2) by (metis add.commute div_add_self2 div_less less_numeral_extra(3) add.right_neutral)
  then have lhs: "(n - b + k - 1) div k = 1" by (simp only: r(2))
  have "(0 + k - 1) div k = 0" using assms(2) by simp
  then have rhs: "Suc ((n - (b + k) + k - 1) div k) = 1" by (simp only: r(3) One_nat_def)
  show ?thesis by (simp only: lhs rhs)
qed

lemma save_batches_unfold:
  "b < length data \<Longrightarrow>
   save_batches orc table stmt data b w =
     (case tx_Exec orc table stmt
        (take ((if length data < b + batchSize then length data else b + batchSize) - b)
           (drop b data)) w of
        (Some err, w1) \<Rightarrow> (Some err, w1)
      | (None, w1) \<Rightarrow> save_batches orc table stmt data (b + batchSize) w1)"
  by (subst save_batches.simps) (simp add: Let_def)

lemma save_batches_done:
  "\<not> b < length data \<Longrightarrow> save_batches orc table stmt data b w = (None, w)"
  by (subst save_batches.simps) simp

lemma tx_Exec_journal:
  assumes "tx_Exec orc table stmt batch w = (e, w1)"
  shows "journal w1 = journal w @ [Exec table (length batch) (e = None)]"
proof (cases "orc (length (journal w))")
  case None
  then have "tx_Exec orc table stmt batch w =
      (None, (stmt batch w)\<lparr>journal := journal w @ [Exec table (length batch) True]\<rparr>)"
    by (simp add: tx_Exec_def)
  with assms have "e = None" "w1 = (stmt batch w)\<lparr>journal := journal w @ [Exec table (length batch) True]\<rparr>"
    by simp_all
  then show ?thesis by simp
next
  case (Some err)
  then have "tx_Exec orc table stmt batch w =
      (Some err, w\<lparr>journal := journal w @ [Exec table (length batch) False]\<rparr>)"
    by (simp add: tx_Exec_def)
  with assms have "e = Some err" "w1 = w\<lparr>journal := journal w @ [Exec table (length batch) False]\<rparr>"
    by simp_all
  then show ?thesis by simp
qed

lemma save_batches_journal:
  assumes st: "\<And>b w. journal (stmt b w) = journal w"
  shows "save_batches orc table stmt data b w = (e, w') \<Longrightarrow>
     begins (journal w') = begins (journal w) \<and>
     commits (journal w') = commits (journal w) \<and>
     (t \<noteq> table \<longrightarrow> execs_on t (journal w') = execs_on t (journal w)) \<and>
     (e = None \<longrightarrow> execs_on table (journal w') =
        execs_on table (journal w) + (length data - b + batchSize - 1) div batchSize)"
  using st
proof (induction orc table stmt data b w rule: save_batches.induct)
  case (1 orc table stmt data b w)
  show ?case
  proof (cases "b < length data")
    case False
    then have "length data - b = 0" by simp
    with "1.prems"(1) save_batches_done [OF False, of orc table stmt w] show ?thesis
      by (simp add: batchSize_def)
  next
    case True
    let ?end = "if length data < b + batchSize then length data else b + batchSize"
    let ?batch = "take (?end - b) (drop b data)"
    obtain e1 w1 where ex: "tx_Exec orc table stmt ?batch w = (e1, w1)"
      by (cases "tx_Exec orc table stmt ?batch w")
    note j1 = tx_Exec_journal [OF ex]
    show ?thesis
    proof (cases e1)
      case (Some err)
      with ex "1.prems"(1) save_batches_unfold [OF True, of orc table stmt w]
      have "e = Some err" "w' = w1" by simp_all
      with j1 show ?thesis by simp
    next
      case None
      with ex "1.prems"(1) save_batches_unfold [OF True, of orc table stmt w]
      have rec: "save_batches orc table stmt data (b + batchSize) w1 = (e, w')"
        by simp
      have ih: "begins (journal w') = begins (journal w1) \<and>
         commits (journal w') = commits (journal w1) \<and>
         (t \<noteq> table \<longrightarrow> execs_on t (journal w') = execs_on t (journal w1)) \<and>
         (e = None \<longrightarrow> execs_on table (journal w') =
            execs_on table (journal w1) + (length data - (b + batchSize) + batchSize - 1) div batchSize)"
        using "1.IH" [OF True refl refl _ _ rec "1.prems"(2)] ex None by simp
      have "0 < batchSize" by (simp add: batchSize_def)
      from ceil_step [OF True this] ih j1 show ?thesis
        by simp
    qed
  qed
qed

lemma batch_append:
  "take ((if length data < b + batchSize then length data else b + batchSize) - b) (drop b data)
     @ drop (b + batchSize) data = drop b data"
proof (cases "length data < b + batchSize")
  case True
  then show ?thesis by simp
next
  case False
  have "take batchSize (drop b data) @ drop batchSize (drop b data) = drop b data"
    by (rule append_take_drop_id)
  with False show ?thesis by (simp add: add.commute)
qed

lemma save_batches_effect:
  assumes c1: "\<And>xs ys w. stmt (xs @ ys) w = stmt ys (stmt xs w)"
    and c2: "\<And>xs w j. stmt xs (w\<lparr>journal := j\<rparr>) = (stmt xs w)\<lparr>journal := j\<rparr>"
    and c3: "\<And>w. stmt [] w = w"
  shows "save_batches orc table stmt data b w = (None, w') \<Longrightarrow>
     w'\<lparr>journal := j0\<rparr> = (stmt (drop b data) w)\<lparr>journal := j0\<rparr>"
  using c1 c2 c3
proof (induction orc table stmt data b w rule: save_batches.induct)
  case (1 orc table stmt data b w)
  show ?case
  proof (cases "b < length data")
    case False
    with "1.prems"(1) save_batches_done [OF False, of orc table stmt w] "1.prems"(4)
    show ?thesis by simp
  next
    case True
    let ?end = "if length data < b + batchSize then length data else b + batchSize"
    let ?batch = "take (?end - b) (drop b data)"
    obtain e1 w1 where ex: "tx_Exec orc table stmt ?batch w = (e1, w1)"
      by (cases "tx_Exec orc table stmt ?batch w")
    show ?thesis
    proof (cases e1)
      case (Some err)
      with ex "1.prems"(1) save_batches_unfold [OF True, of orc table stmt w] show ?thesis
        by simp
    next
      case None
      with ex "1.prems"(1) save_batches_unfold [OF True, of orc table stmt w]
      have rec: "save_batches orc table stmt data (b + batchSize) w1 = (None, w')"
        by simp
      have w1: "w1 = (stmt ?batch w)\<lparr>journal := journal w @ [Exec table (length ?batch) True]\<rparr>"
        using ex None by (auto simp: tx_Exec_def split: option.splits)
      have "w'\<lparr>journal := j0\<rparr> = (stmt (drop (b + batchSize) data) w1)\<lparr>journal := j0\<rparr>"
        using "1.IH" [OF True refl refl _ _ rec "1.prems"(2,3,4)] ex None by simp
      also have "\<dots> = (stmt (drop (b + batchSize) data) (stmt ?batch w))\<lparr>journal := j0\<rparr>"
        by (simp add: w1 "1.prems"(3))
      also have "\<dots> = (stmt (?batch @ drop (b + batchSize) data) w)\<lparr>journal := j0\<rparr>"
        by (simp only: "1.prems"(2))
      also have "\<dots> = (stmt (drop b data) w)\<lparr>journal := j0\<rparr>"
        by (simp only: batch_append)
      finally show ?thesis .
    qed
  qed
qed

lemma save_batches_frame:
  assumes p1: "\<And>b w. P (stmt b w) = P w"
    and p2: "\<And>w j. P (w\<lparr>journal := j\<rparr>) = P w"
  shows "save_batches orc table stmt data b w = (e, w') \<Longrightarrow> P w' = P w"
  using p1 p2
proof (induction orc table stmt data b w rule: save_batches.induct)
  case (1 orc table stmt data b w)
  show ?case
  proof (cases "b < length data")
    case False
    with "1.prems"(1) save_batches_done [OF False, of orc table stmt w] show ?thesis by simp
  next
    case True
    let ?end = "if length data < b + batchSize then length data else b + batchSize"
    let ?batch = "take (?end - b) (drop b data)"
    obtain e1 w1 where ex: "tx_Exec orc table stmt ?batch w = (e1, w1)"
      by (cases "tx_Exec orc table stmt ?batch w")
    have pw1: "P w1 = P w"
      using ex "1.prems"(2,3) by (auto simp: tx_Exec_def split: option.splits)
    show ?thesis
    proof (cases e1)
      case (Some err)
      with ex "1.prems"(1) save_batches_unfold [OF True, of orc table stmt w] pw1 show ?thesis
        by simp
    next
      case None
      with ex "1.prems"(1) save_batches_unfold [OF True, of orc table stmt w]
      have rec: "save_batches orc table stmt data (b + batchSize) w1 = (e, w')"
        by simp
      from "1.IH" [OF True refl refl _ _ rec "1.prems"(2,3)] ex None pw1 show ?thesis
        by simp
    qed
  qed
qed

section \<open>One transaction for all batches\<close>

lemma insert_values_append:
  "insert_values f (xs @ ys) t = insert_values f ys (insert_values f xs t)"
  by (simp add: insert_values_def)

lemma minipools_stmt_props:
  "journal (minipools_stmt s b w) = journal w"
  "minipools_stmt s (xs @ ys) w = minipools_stmt s ys (minipools_stmt s xs w)"
  "minipools_stmt s xs (w\<lparr>journal := j\<rparr>) = (minipools_stmt s xs w)\<lparr>journal := j\<rparr>"
  "minipools_stmt s [] w = w"
  "rocketpool_nodes (minipools_stmt s b w) = rocketpool_nodes w"
  "rocketpool_proposals (minipools_stmt s b w) = rocketpool_proposals w"
  by (simp_all add: minipools_stmt_def insert_values_append) (simp add: insert_values_def)

lemma nodes_stmt_props:
  "journal (nodes_stmt s b w) = journal w"
  "nodes_stmt s (xs @ ys) w = nodes_stmt s ys (nodes_stmt s xs w)"
  "nodes_stmt s xs (w\<lparr>journal := j\<rparr>) = (nodes_stmt s xs w)\<lparr>journal := j\<rparr>"
  "nodes_stmt s [] w = w"
  "rocketpool_minipools (nodes_stmt s b w) = rocketpool_minipools w"
  "rocketpool_proposals (nodes_stmt s b w) = rocketpool_proposals w"
  by (simp_all add: nodes_stmt_def insert_values_append) (simp add: insert_values_def)

lemma proposals_stmt_props:
  "journal (proposals_stmt s b w) = journal w"
  "proposals_stmt s (xs @ ys) w = proposals_stmt s ys (proposals_stmt s xs w)"
  "proposals_stmt s xs (w\<lparr>journal := j\<rparr>) = (proposals_stmt s xs w)\<lparr>journal := j\<rparr>"
  "proposals_stmt s [] w = w"
  "rocketpool_minipools (proposals_stmt s b w) = rocketpool_minipools w"
  "rocketpool_nodes (proposals_stmt s b w) = rocketpool_nodes w"
  by (simp_all add: proposals_stmt_def insert_values_append) (simp add: insert_values_def)

lemma Beginx_cases:
  assumes "Beginx orc db = (e, w)"
  shows "w = db\<lparr>journal := journal db @ [Begin (e = None)]\<rparr>"
proof (cases "orc (length (journal db))")
  case None
  then have "Beginx orc db = (None, db\<lparr>journal := journal db @ [Begin True]\<rparr>)"
    by (simp add: Beginx_def)
  with assms have "e = None" "w = db\<lparr>journal := journal db @ [Begin True]\<rparr>"
    by simp_all
  then show ?thesis by simp
next
  case (Some err)
  then have "Beginx orc db = (Some err, db\<lparr>journal := journal db @ [Begin False]\<rparr>)"
    by (simp add: Beginx_def)
  with assms have "e = Some err" "w = db\<lparr>journal := journal db @ [Begin False]\<rparr>"
    by simp_all
  then show ?thesis by simp
qed

lemma tx_Commit_cases:
  assumes "tx_Commit orc db w = (e, db')"
  shows "(e = None \<longrightarrow> db' = w\<lparr>journal := journal w @ [Commit True]\<rparr>) \<and>
     (e \<noteq> None \<longrightarrow> db' = db\<lparr>journal := journal w @ [Commit False]\<rparr>)"
proof (cases "orc (length (journal w))")
  case None
  then have "tx_Commit orc db w = (None, w\<lparr>journal := journal w @ [Commit True]\<rparr>)"
    by (simp add: tx_Commit_def)
  with assms have "e = None" "db' = w\<lparr>journal := journal w @ [Commit True]\<rparr>"
    by simp_all
  then show ?thesis by simp
next
  case (Some err)
  then have "tx_Commit orc db w = (Some err, db\<lparr>journal := journal w @ [Commit False]\<rparr>)"
    by (simp add: tx_Commit_def)
  with assms have "e = Some err" "db' = db\<lparr>journal := journal w @ [Commit False]\<rparr>"
    by simp_all
  then show ?thesis by simp
qed

lemma save_tx_journal:
  assumes st: "\<And>b w. journal (stmt b w) = journal w"
    and run: "save_tx orc table stmt data db = (e, db')"
  shows "begins (journal db') = Suc (begins (journal db))"
    and "t \<noteq> table \<Longrightarrow> execs_on t (journal db') = execs_on t (journal db)"
    and "e \<noteq> None \<Longrightarrow> same_tables db' db \<and> commits (journal db') = commits (journal db)"
    and "e = None \<Longrightarrow> commits (journal db') = Suc (commits (journal db)) \<and>
       execs_on table (journal db') =
         execs_on table (journal db) + (length data + batchSize - 1) div batchSize"
proof -
  obtain e0 w0 where b: "Beginx orc db = (e0, w0)"
    by (cases "Beginx orc db")
  note w0 = Beginx_cases [OF b]
  obtain e1 w1 where l: "save_batches orc table stmt data 0 w0 = (e1, w1)"
    by (cases "save_batches orc table stmt data 0 w0")
  note j1 = save_batches_journal [OF st l]
  obtain e2 d2 where c: "tx_Commit orc db w1 = (e2, d2)"
    by (cases "tx_Commit orc db w1")
  note d2 = tx_Commit_cases [OF c]
  have all: "begins (journal db') = Suc (begins (journal db)) \<and>
     (t \<noteq> table \<longrightarrow> execs_on t (journal db') = execs_on t (journal db)) \<and>
     (e \<noteq> None \<longrightarrow> same_tables db' db \<and> commits (journal db') = commits (journal db)) \<and>
     (e = None \<longrightarrow> commits (journal db') = Suc (commits (journal db)) \<and>
       execs_on table (journal db') =
         execs_on table (journal db) + (length data + batchSize - 1) div batchSize)"
  proof (cases e0)
    case (Some err)
    with run b have "e = Some err" "db' = w0"
      by (simp_all add: save_tx_def)
    with w0 Some show ?thesis
      by (simp add: same_tables_def)
  next
    case None
    note e0 = this
    show ?thesis
    proof (cases e1)
      case (Some err)
      with run b l e0 have "e = Some err" "db' = tx_Rollback db w1"
        by (simp_all add: save_tx_def)
      with w0 e0 j1 [of t] show ?thesis
        by (simp add: tx_Rollback_def same_tables_def)
    next
      case None
      with run b l e0 c have r: "e = e2" "db' = d2"
        by (simp_all add: save_tx_def)
      show ?thesis
      proof (cases e2)
        case None
        with r d2 w0 e0 j1 [of t] \<open>e1 = None\<close> show ?thesis
          by simp
      next
        case (Some err)
        with r d2 w0 e0 j1 [of t] show ?thesis
          by (simp add: same_tables_def)
      qed
    qed
  qed
  then show "begins (journal db') = Suc (begins (journal db))"
    and "t \<noteq> table \<Longrightarrow> execs_on t (journal db') = execs_on t (journal db)"
    and "e \<noteq> None \<Longrightarrow> same_tables db' db \<and> commits (journal db') = commits (journal db)"
    and "e = None \<Longrightarrow> commits (journal db') = Suc (commits (journal db)) \<and>
       execs_on table (journal db') =
         execs_on table (journal db) + (length data + batchSize - 1) div batchSize"
    by simp_all
qed

lemma save_tx_effect:
  assumes c1: "\<And>xs ys w. stmt (xs @ ys) w = stmt ys (stmt xs w)"
    and c2: "\<And>xs w j. stmt xs (w\<lparr>journal := j\<rparr>) = (stmt xs w)\<lparr>journal := j\<rparr>"
    and c3: "\<And>w. stmt [] w = w"
    and run: "save_tx orc table stmt data db = (None, db')"
  shows "db'\<lparr>journal := j0\<rparr> = (stmt data db)\<lparr>journal := j0\<rparr>"
proof -
  obtain e0 w0 where b: "Beginx orc db = (e0, w0)"
    by (cases "Beginx orc db")
  obtain e1 w1 where l: "save_batches orc table stmt data 0 w0 = (e1, w1)"
    by (cases "save_batches orc table stmt data 0 w0")
  from run b l have e: "e0 = None" "e1 = None" and c: "tx_Commit orc db w1 = (None, db')"
    by (auto simp: save_tx_def split: option.splits)
  from Beginx_cases [OF b] have w0: "w0 = db\<lparr>journal := journal db @ [Begin (e0 = None)]\<rparr>" .
  from tx_Commit_cases [OF c] have "db' = w1\<lparr>journal := journal w1 @ [Commit True]\<rparr>"
    by simp
  then have "db'\<lparr>journal := j0\<rparr> = w1\<lparr>journal := j0\<rparr>"
    by simp
  also have "\<dots> = (stmt (drop 0 data) w0)\<lparr>journal := j0\<rparr>"
    using save_batches_effect [OF c1 c2 c3, of orc table data 0 w0 w1 j0] l e by simp
  also have "\<dots> = (stmt data db)\<lparr>journal := j0\<rparr>"
    by (simp add: w0 c2)
  finally show ?thesis .
qed

lemma save_batches_extends:
  assumes st: "\<And>b w. journal (stmt b w) = journal w"
  shows "save_batches orc table stmt data b w = (e, w') \<Longrightarrow>
     \<exists>k. journal w' = journal w @ k \<and>
       (e = None \<longrightarrow> length k = (length data - b + batchSize - 1) div batchSize)"
  using st
proof (induction orc table stmt data b w rule: save_batches.induct)
  case (1 orc table stmt data b w)
  show ?case
  proof (cases "b < length data")
    case False
    then have "length data - b = 0" by simp
    with "1.prems"(1) save_batches_done [OF False, of orc table stmt w] show ?thesis
      by (simp add: batchSize_def)
  next
    case True
    let ?end = "if length data < b + batchSize then length data else b + batchSize"
    let ?batch = "take (?end - b) (drop b data)"
    obtain e1 w1 where ex: "tx_Exec orc table stmt ?batch w = (e1, w1)"
      by (cases "tx_Exec orc table stmt ?batch w")
    note j1 = tx_Exec_journal [OF ex]
    show ?thesis
    proof (cases e1)
      case (Some err)
      with ex "1.prems"(1) save_batches_unfold [OF True, of orc table stmt w]
      have "e = Some err" "w' = w1" by simp_all
      with j1 show ?thesis by simp
    next
      case None
      with ex "1.prems"(1) save_batches_unfold [OF True, of orc table stmt w]
      have rec: "save_batches orc table stmt data (b + batchSize) w1 = (e, w')"
        by simp
      have "\<exists>k. journal w' = journal w1 @ k \<and>
         (e = None \<longrightarrow> length k = (length data - (b + batchSize) + batchSize - 1) div batchSize)"
        using "1.IH" [OF True refl refl _ _ rec "1.prems"(2)] ex None by simp
      then obtain k where k: "journal w' = journal w1 @ k"
        "e = None \<longrightarrow> length k = (length data - (b + batchSize) + batchSize - 1) div batchSize"
        by blast
      have "0 < batchSize" by (simp add: batchSize_def)
      note cs = ceil_step [OF True this]
      let ?k = "Exec table (length ?batch) (e1 = None) # k"
      have "journal w' = journal w @ ?k"
        using k(1) j1 by simp
      moreover have "e = None \<longrightarrow> length ?k = (length data - b + batchSize - 1) div batchSize"
        using k(2) cs by simp
      ultimately show ?thesis
        by blast
    qed
  qed
qed

lemma save_tx_shape:
  assumes st: "\<And>b w. journal (stmt b w) = journal w"
    and run: "save_tx orc table stmt data db = (e, db')"
  shows "take (length (journal db)) (journal db') = journal db \<and>
     (e = None \<longrightarrow>
        journal db' ! length (journal db) = Begin True \<and>
        last (journal db') = Commit True \<and>
        length (journal db') =
          length (journal db) + (length data + batchSize - 1) div batchSize + 2)"
proof -
  obtain e0 w0 where b: "Beginx orc db = (e0, w0)"
    by (cases "Beginx orc db")
  note w0 = Beginx_cases [OF b]
  obtain e1 w1 where l: "save_batches orc table stmt data 0 w0 = (e1, w1)"
    by (cases "save_batches orc table stmt data 0 w0")
  from save_batches_extends [OF st l] obtain k where k: "journal w1 = journal w0 @ k"
    "e1 = None \<longrightarrow> length k = (length data + batchSize - 1) div batchSize"
    by auto
  obtain e2 d2 where c: "tx_Commit orc db w1 = (e2, d2)"
    by (cases "tx_Commit orc db w1")
  note d2 = tx_Commit_cases [OF c]
  show ?thesis
  proof (cases e0)
    case (Some err)
    with run b have "e = Some err" "db' = w0"
      by (simp_all add: save_tx_def)
    with w0 show ?thesis
      by simp
  next
    case None
    note e0 = this
    show ?thesis
    proof (cases e1)
      case (Some err)
      with run b l e0 have "e = Some err" "db' = tx_Rollback db w1"
        by (simp_all add: save_tx_def)
      with w0 k(1) show ?thesis
        by (simp add: tx_Rollback_def)
    next
      case None
      with run b l e0 c have r: "e = e2" "db' = d2"
        by (simp_all add: save_tx_def)
      show ?thesis
      proof (cases e2)
        case None
        with r d2 have "journal db' = journal db @ Begin True # k @ [Commit True]"
          using w0 e0 k(1) by simp
        with r None k(2) \<open>e1 = None\<close> show ?thesis
          by (simp add: nth_append)
      next
        case (Some err)
        with r d2 have "journal db' = journal db @ Begin True # k @ [Commit False]"
          using w0 e0 k(1) by simp
        with r Some show ?thesis
          by simp
      qed
    qed
  qed
qed

lemma save_tx_single:
  assumes st: "\<And>b w. journal (stmt b w) = journal w"
    and run: "save_tx orc table stmt data db = (e, db')"
  shows "begins (journal db') = Suc (begins (journal db)) \<and>
     take (length (journal db)) (journal db') = journal db \<and>
     (e = None \<longrightarrow>
        journal db' ! length (journal db) = Begin True \<and>
        execs_on table (journal db') =
          execs_on table (journal db) + (length data + batchSize - 1) div batchSize \<and>
        length (journal db') =
          length (journal db) + (length data + batchSize - 1) div batchSize + 2 \<and>
        commits (journal db') = Suc (commits (journal db)) \<and>
        last (journal db') = Commit True) \<and>
     (e \<noteq> None \<longrightarrow> same_tables db' db \<and> commits (journal db') = commits (journal db))"
  using save_tx_journal(1,3,4) [OF st run] save_tx_shape [OF st run]
  by blast

lemma SaveMinipools_rows:
  assumes "SaveMinipools orc api rp db = (None, db')"
  shows "rocketpool_minipools db' =
     insert_values minipool_conflict
       (map (minipool_values (RocketStorageContract_Address api)) (minipool_data rp))
       (rocketpool_minipools db)"
proof (cases "length (MinipoolsByAddress rp) = 0")
  case True
  with assms have "db' = db" "minipool_data rp = []"
    by (simp_all add: SaveMinipools_def minipool_data_def)
  then show ?thesis
    by (simp add: insert_values_def)
next
  case False
  with assms have run: "save_tx orc ''rocketpool_minipools''
      (minipools_stmt (RocketStorageContract_Address api)) (minipool_data rp) db = (None, db')"
    by (simp add: SaveMinipools_def)
  have "db'\<lparr>journal := []\<rparr> =
      (minipools_stmt (RocketStorageContract_Address api) (minipool_data rp) db)\<lparr>journal := []\<rparr>"
    by (rule save_tx_effect [OF minipools_stmt_props(2) minipools_stmt_props(3)
          minipools_stmt_props(4) run])
  then have "rocketpool_minipools (db'\<lparr>journal := []\<rparr>) =
      rocketpool_minipools
        ((minipools_stmt (RocketStorageContract_Address api) (minipool_data rp) db)\<lparr>journal := []\<rparr>)"
    by (rule arg_cong)
  then show ?thesis
    by (simp add: minipools_stmt_def)
qed

lemma SaveNodes_rows:
  assumes "SaveNodes orc api rp db = (None, db')"
  shows "rocketpool_nodes db' =
     insert_values node_conflict
       (map (node_values (RocketStorageContract_Address api)) (node_data rp))
       (rocketpool_nodes db)"
proof (cases "length (NodesByAddress rp) = 0")
  case True
  with assms have "db' = db" "node_data rp = []"
    by (simp_all add: SaveNodes_def node_data_def)
  then show ?thesis
    by (simp add: insert_values_def)
next
  case False
  with assms have run: "save_tx orc ''rocketpool_nodes''
      (nodes_stmt (RocketStorageContract_Address api)) (node_data rp) db = (None, db')"
    by (simp add: SaveNodes_def)
  have "db'\<lparr>journal := []\<rparr> =
      (nodes_stmt (RocketStorageContract_Address api) (node_data rp) db)\<lparr>journal := []\<rparr>"
    by (rule save_tx_effect [OF nodes_stmt_props(2) nodes_stmt_props(3)
          nodes_stmt_props(4) run])
  then have "rocketpool_nodes (db'\<lparr>journal := []\<rparr>) =
      rocketpool_nodes
        ((nodes_stmt (RocketStorageContract_Address api) (node_data rp) db)\<lparr>journal := []\<rparr>)"
    by (rule arg_cong)
  then show ?thesis
    by (simp add: nodes_stmt_def)
qed

lemma SaveProposals_rows:
  assumes "SaveProposals orc api rp db = (None, db')"
  shows "rocketpool_proposals db' =
     insert_values proposal_conflict
       (map (proposal_values (RocketStorageContract_Address api)) (proposal_data rp))
       (rocketpool_proposals db)"
proof (cases "length (ProposalsByID rp) = 0")
  case True
  with assms have "db' = db" "proposal_data rp = []"
    by (simp_all add: SaveProposals_def proposal_data_def)
  then show ?thesis
    by (simp add: insert_values_def)
next
  case False
  with assms have run: "save_tx orc ''rocketpool_proposals''
      (proposals_stmt (RocketStorageContract_Address api)) (proposal_data rp) db = (None, db')"
    by (simp add: SaveProposals_def)
  have "db'\<lparr>journal := []\<rparr> =
      (proposals_stmt (RocketStorageContract_Address api) (proposal_data rp) db)\<lparr>journal := []\<rparr>"
    by (rule save_tx_effect [OF proposals_stmt_props(2) proposals_stmt_props(3)
          proposals_stmt_props(4) run])
  then have "rocketpool_proposals (db'\<lparr>journal := []\<rparr>) =
      rocketpool_proposals
        ((proposals_stmt (RocketStorageContract_Address api) (proposal_data rp) db)\<lparr>journal := []\<rparr>)"
    by (rule arg_cong)
  then show ?thesis
    by (simp add: proposals_stmt_def)
qed

lemma SaveMinipools_single_tx:
  assumes "SaveMinipools orc api rp db = (e, db')"
  shows "(length (MinipoolsByAddress rp) = 0 \<longrightarrow> e = None \<and> db' = db) \<and>
     (length (MinipoolsByAddress rp) \<noteq> 0 \<longrightarrow>
        begins (journal db') = Suc (begins (journal db)) \<and>
        take (length (journal db)) (journal db') = journal db \<and>
        (e = None \<longrightarrow>
           journal db' ! length (journal db) = Begin True \<and>
           execs_on ''rocketpool_minipools'' (journal db') =
             execs_on ''rocketpool_minipools'' (journal db) +
             (length (MinipoolsByAddress rp) + batchSize - 1) div batchSize \<and>
           length (journal db') =
             length (journal db) + (length (MinipoolsByAddress rp) + batchSize - 1) div batchSize + 2 \<and>
           commits (journal db') = Suc (commits (journal db)) \<and>
           last (journal db') = Commit True \<and>
           rocketpool_minipools db' =
             insert_values minipool_conflict
               (map (minipool_values (RocketStorageContract_Address api)) (minipool_data rp))
               (rocketpool_minipools db)) \<and>
        (e \<noteq> None \<longrightarrow> same_tables db' db \<and> commits (journal db') = commits (journal db)))"
proof (cases "length (MinipoolsByAddress rp) = 0")
  case True
  with assms have "e = None" "db' = db"
    by (simp_all add: SaveMinipools_def)
  with True show ?thesis
    by simp
next
  case False
  with assms have run: "save_tx orc ''rocketpool_minipools''
      (minipools_stmt (RocketStorageContract_Address api)) (minipool_data rp) db = (e, db')"
    by (simp add: SaveMinipools_def)
  have len: "length (minipool_data rp) = length (MinipoolsByAddress rp)"
    by (simp add: minipool_data_def)
  have rows: "e = None \<longrightarrow> rocketpool_minipools db' =
      insert_values minipool_conflict
        (map (minipool_values (RocketStorageContract_Address api)) (minipool_data rp))
        (rocketpool_minipools db)"
    using assms SaveMinipools_rows [of orc api rp db db'] by simp
  from save_tx_single [OF minipools_stmt_props(1) run] len rows False show ?thesis
    by simp
qed

lemma SaveNodes_single_tx:
  assumes "SaveNodes orc api rp db = (e, db')"
  shows "(length (NodesByAddress rp) = 0 \<longrightarrow> e = None \<and> db' = db) \<and>
     (length (NodesByAddress rp) \<noteq> 0 \<longrightarrow>
        begins (journal db') = Suc (begins (journal db)) \<and>
        take (length (journal db)) (journal db') = journal db \<and>
        (e = None \<longrightarrow>
           journal db' ! length (journal db) = Begin True \<and>
           execs_on ''rocketpool_nodes'' (journal db') =
             execs_on ''rocketpool_nodes'' (journal db) +
             (length (NodesByAddress rp) + batchSize - 1) div batchSize \<and>
           length (journal db') =
             length (journal db) + (length (NodesByAddress rp) + batchSize - 1) div batchSize + 2 \<and>
           commits (journal db') = Suc (commits (journal db)) \<and>
           last (journal db') = Commit True \<and>
           rocketpool_nodes db' =
             insert_values node_conflict
               (map (node_values (RocketStorageContract_Address api)) (node_data rp))
               (rocketpool_nodes db)) \<and>
        (e \<noteq> None \<longrightarrow> same_tables db' db \<and> commits (journal db') = commits (journal db)))"
proof (cases "length (NodesByAddress rp) = 0")
  case True
  with assms have "e = None" "db' = db"
    by (simp_all add: SaveNodes_def)
  with True show ?thesis
    by simp
next
  case False
  with assms have run: "save_tx orc ''rocketpool_nodes''
      (nodes_stmt (RocketStorageContract_Address api)) (node_data rp) db = (e, db')"
    by (simp add: SaveNodes_def)
  have len: "length (node_data rp) = length (NodesByAddress rp)"
    by (simp add: node_data_def)
  have rows: "e = None \<longrightarrow> rocketpool_nodes db' =
      insert_values node_conflict
        (map (node_values (RocketStorageContract_Address api)) (node_data rp))
        (rocketpool_nodes db)"
    using assms SaveNodes_rows [of orc api rp db db'] by simp
  from save_tx_single [OF nodes_stmt_props(1) run] len rows False show ?thesis
    by simp
qed

lemma SaveProposals_single_tx:
  assumes "SaveProposals orc api rp db = (e, db')"
  shows "(length (ProposalsByID rp) = 0 \<longrightarrow> e = None \<and> db' = db) \<and>
     (length (ProposalsByID rp) \<noteq> 0 \<longrightarrow>
        begins (journal db') = Suc (begins (journal db)) \<and>
        take (length (journal db)) (journal db') = journal db \<and>
        (e = None \<longrightarrow>
           journal db' ! length (journal db) = Begin True \<and>
           execs_on ''rocketpool_proposals'' (journal db') =
             execs_on ''rocketpool_proposals'' (journal db) +
             (length (ProposalsByID rp) + batchSize - 1) div batchSize \<and>
           length (journal db') =
             length (journal db) + (length (ProposalsByID rp) + batchSize - 1) div batchSize + 2 \<and>
           commits (journal db') = Suc (commits (journal db)) \<and>
           last (journal db') = Commit True \<and>
           rocketpool_proposals db' =
             insert_values proposal_conflict
               (map (proposal_values (RocketStorageContract_Address api)) (proposal_data rp))
               (rocketpool_proposals db)) \<and>
        (e \<noteq> None \<longrightarrow> same_tables db' db \<and> commits (journal db') = commits (journal db)))"
proof (cases "length (ProposalsByID rp) = 0")
  case True
  with assms have "e = None" "db' = db"
    by (simp_all add: SaveProposals_def)
  with True show ?thesis
    by simp
next
  case False
  with assms have run: "save_tx orc ''rocketpool_proposals''
      (proposals_stmt (RocketStorageContract_Address api)) (proposal_data rp) db = (e, db')"
    by (simp add: SaveProposals_def)
  have len: "length (proposal_data rp) = length (ProposalsByID rp)"
    by (simp add: proposal_data_def)
  have rows: "e = None \<longrightarrow> rocketpool_proposals db' =
      insert_values proposal_conflict
        (map (proposal_values (RocketStorageContract_Address api)) (proposal_data rp))
        (rocketpool_proposals db)"
    using assms SaveProposals_rows [of orc api rp db db'] by simp
  from save_tx_single [OF proposals_stmt_props(1) run] len rows False show ?thesis
    by simp
qed

lemma many_length:
  "length (minipool_data engine_many) = 1001"
  "length (MinipoolsByAddress engine_many) = 1001"
  by (simp_all add: minipool_data_def engine_many_def)

lemma many_second_batch_fails:
  "SaveMinipools (fails_at 2) chain_up engine_many empty_db =
     (Some (DBError 1),
      empty_db\<lparr>journal := [Begin True, Exec ''rocketpool_minipools'' 1000 True,
        Exec ''rocketpool_minipools'' 1 False, Rollback]\<rparr>)"
proof -
  have b0: "(0::nat) < length (minipool_data engine_many)"
    and b1: "(1000::nat) < length (minipool_data engine_many)"
    by (simp_all add: many_length)
  show ?thesis
    by (simp add: SaveMinipools_def save_tx_def Beginx_def fails_at_def many_length
        save_batches_unfold [OF b0]
        save_batches_unfold [of "0 + batchSize", simplified batchSize_def, simplified, OF b1]
        tx_Exec_def batchSize_def minipools_stmt_props tx_Rollback_def empty_db_def)
qed

text \<open>
  Claim C2 says that each batch runs in its own transaction, committed on its own, so
  that a failure of batch \<open>k\<close> leaves batches 1 to \<open>k - 1\<close> committed. With 1001
  minipools there are two batches. When the second fails, the journal shows one
  transaction, the first batch of 1000 rows executed in it, the failed second batch and
  the rollback; the table, empty before, is empty after: the first batch is not
  committed.
\<close>

theorem one_failed_batch_undoes_the_earlier_batches:
  "length (MinipoolsByAddress engine_many) = 1001 \<and>
   SaveMinipools (fails_at 2) chain_up engine_many empty_db =
     (Some (DBError 1),
      empty_db\<lparr>journal := [Begin True, Exec ''rocketpool_minipools'' 1000 True,
        Exec ''rocketpool_minipools'' 1 False, Rollback]\<rparr>) \<and>
   rocketpool_minipools empty_db = [] \<and>
   rocketpool_minipools (snd (SaveMinipools (fails_at 2) chain_up engine_many empty_db)) = []"
  using many_second_batch_fails by (simp add: many_length empty_db_def)

text \<open>
  Claim C2, amended. For each kind, persisting the \<open>N\<close> cached entities does nothing
  when \<open>N = 0\<close>: no transaction is opened and the database is as before. When \<open>N > 0\<close>
  the call opens exactly one transaction, after what the journal held before. When the
  call succeeds, what it has added to the journal starts with the successful
  \<^verbatim>\<open>Beginx\<close> and ends with the successful \<^verbatim>\<open>Commit\<close>, the only commit of the call;
  it has sent \<open>\<lceil>N / batchSize\<rceil>\<close> batch statements to the table of the kind, which with
  the two make up all it has added; and the table holds the rows of the statement
  applied to all the cached entities. When the call fails, at whichever operation,
  nothing is committed: the three tables hold the rows they held before the call.
\<close>

theorem Save_batches_share_one_transaction:
  "(SaveMinipools orc api rp db = (em, dbm) \<longrightarrow>
     (length (MinipoolsByAddress rp) = 0 \<longrightarrow> em = None \<and> dbm = db) \<and>
     (length (MinipoolsByAddress rp) \<noteq> 0 \<longrightarrow>
        begins (journal dbm) = Suc (begins (journal db)) \<and>
        take (length (journal db)) (journal dbm) = journal db \<and>
        (em = None \<longrightarrow>
           journal dbm ! length (journal db) = Begin True \<and>
           execs_on ''rocketpool_minipools'' (journal dbm) =
             execs_on ''rocketpool_minipools'' (journal db) +
             (length (MinipoolsByAddress rp) + batchSize - 1) div batchSize \<and>
           length (journal dbm) =
             length (journal db) + (length (MinipoolsByAddress rp) + batchSize - 1) div batchSize + 2 \<and>
           commits (journal dbm) = Suc (commits (journal db)) \<and>
           last (journal dbm) = Commit True \<and>
           rocketpool_minipools dbm =
             insert_values minipool_conflict
               (map (minipool_values (RocketStorageContract_Address api)) (minipool_data rp))
               (rocketpool_minipools db)) \<and>
        (em \<noteq> None \<longrightarrow> same_tables dbm db \<and> commits (journal dbm) = commits (journal db)))) \<and>
   (SaveNodes orc api rp db = (en, dbn) \<longrightarrow>
     (length (NodesByAddress rp) = 0 \<longrightarrow> en = None \<and> dbn = db) \<and>
     (length (NodesByAddress rp) \<noteq> 0 \<longrightarrow>
        begins (journal dbn) = Suc (begins (journal db)) \<and>
        take (length (journal db)) (journal dbn) = journal db \<and>
        (en = None \<longrightarrow>
           journal dbn ! length (journal db) = Begin True \<and>
           execs_on ''rocketpool_nodes'' (journal dbn) =
             execs_on ''rocketpool_nodes'' (journal db) +
             (length (NodesByAddress rp) + batchSize - 1) div batchSize \<and>
           length (journal dbn) =
             length (journal db) + (length (NodesByAddress rp) + batchSize - 1) div batchSize + 2 \<and>
           commits (journal dbn) = Suc (commits (journal db)) \<and>
           last (journal dbn) = Commit True \<and>
           rocketpool_nodes dbn =
             insert_values node_conflict
               (map (node_values (RocketStorageContract_Address api)) (node_data rp))
               (rocketpool_nodes db)) \<and>
        (en \<noteq> None \<longrightarrow> same_tables dbn db \<and> commits (journal dbn) = commits (journal db)))) \<and>
   (SaveProposals orc api rp db = (ep, dbp) \<longrightarrow>
     (length (ProposalsByID rp) = 0 \<longrightarrow> ep = None \<and> dbp = db) \<and>
     (length (ProposalsByID rp) \<noteq> 0 \<longrightarrow>
        begins (journal dbp) = Suc (begins (journal db)) \<and>
        take (length (journal db)) (journal dbp) = journal db \<and>
        (ep = None \<longrightarrow>
           journal dbp ! length (journal db) = Begin True \<and>
           execs_on ''rocketpool_proposals'' (journal dbp) =
             execs_on ''rocketpool_proposals'' (journal db) +
             (length (ProposalsByID rp) + batchSize - 1) div batchSize \<and>
           length (journal dbp) =
             length (journal db) + (length (ProposalsByID rp) + batchSize - 1) div batchSize + 2 \<and>
           commits (journal dbp) = Suc (commits (journal db)) \<and>
           last (journal dbp) = Commit True \<and>
           rocketpool_proposals dbp =
             insert_values proposal_conflict
               (map (proposal_values (RocketStorageContract_Address api)) (proposal_data rp))
               (rocketpool_proposals db)) \<and>
        (ep \<noteq> None \<longrightarrow> same_tables dbp db \<and> commits (journal dbp) = commits (journal db))))"
proof (intro conjI)
  show "(SaveMinipools orc api rp db = (em, dbm) \<longrightarrow>
     (length (MinipoolsByAddress rp) = 0 \<longrightarrow> em = None \<and> dbm = db) \<and>
     (length (MinipoolsByAddress rp) \<noteq> 0 \<longrightarrow>
        begins (journal dbm) = Suc (begins (journal db)) \<and>
        take (length (journal db)) (journal dbm) = journal db \<and>
        (em = None \<longrightarrow>
           journal dbm ! length (journal db) = Begin True \<and>
           execs_on ''rocketpool_minipools'' (journal dbm) =
             execs_on ''rocketpool_minipools'' (journal db) +
             (length (MinipoolsByAddress rp) + batchSize - 1) div batchSize \<and>
           length (journal dbm) =
             length (journal db) + (length (MinipoolsByAddress rp) + batchSize - 1) div batchSize + 2 \<and>
           commits (journal dbm) = Suc (commits (journal db)) \<and>
           last (journal dbm) = Commit True \<and>
           rocketpool_minipools dbm =
             insert_values minipool_conflict
               (map (minipool_values (RocketStorageContract_Address api)) (minipool_data rp))
               (rocketpool_minipools db)) \<and>
        (em \<noteq> None \<longrightarrow> same_tables dbm db \<and> commits (journal dbm) = commits (journal db))))"
    by (rule impI) (rule SaveMinipools_single_tx)
  show "(SaveNodes orc api rp db = (en, dbn) \<longrightarrow>
     (length (NodesByAddress rp) = 0 \<longrightarrow> en = None \<and> dbn = db) \<and>
     (length (NodesByAddress rp) \<noteq> 0 \<longrightarrow>
        begins (journal dbn) = Suc (begins (journal db)) \<and>
        take (length (journal db)) (journal dbn) = journal db \<and>
        (en = None \<longrightarrow>
           journal dbn ! length (journal db) = Begin True \<and>
           execs_on ''rocketpool_nodes'' (journal dbn) =
             execs_on ''rocketpool_nodes'' (journal db) +
             (length (NodesByAddress rp) + batchSize - 1) div batchSize \<and>
           length (journal dbn) =
             length (journal db) + (length (NodesByAddress rp) + batchSize - 1) div batchSize + 2 \<and>
           commits (journal dbn) = Suc (commits (journal db)) \<and>
           last (journal dbn) = Commit True \<and>
           rocketpool_nodes dbn =
             insert_values node_conflict
               (map (node_values (RocketStorageContract_Address api)) (node_data rp))
               (rocketpool_nodes db)) \<and>
        (en \<noteq> None \<longrightarrow> same_tables dbn db \<and> commits (journal dbn) = commits (journal db))))"
    by (rule impI) (rule SaveNodes_single_tx)
  show "(SaveProposals orc api rp db = (ep, dbp) \<longrightarrow>
     (length (ProposalsByID rp) = 0 \<longrightarrow> ep = None \<and> dbp = db) \<and>
     (length (ProposalsByID rp) \<noteq> 0 \<longrightarrow>
        begins (journal dbp) = Suc (begins (journal db)) \<and>
        take (length (journal db)) (journal dbp) = journal db \<and>
        (ep = None \<longrightarrow>
           journal dbp ! length (journal db) = Begin True \<and>
           execs_on ''rocketpool_proposals'' (journal dbp) =
             execs_on ''rocketpool_proposals'' (journal db) +
             (length (ProposalsByID rp) + batchSize - 1) div batchSize \<and>
           length (journal dbp) =
             length (journal db) + (length (ProposalsByID rp) + batchSize - 1) div batchSize + 2 \<and>
           commits (journal dbp) = Suc (commits (journal db)) \<and>
           last (journal dbp) = Commit True \<and>
           rocketpool_proposals dbp =
             insert_values proposal_conflict
               (map (proposal_values (RocketStorageContract_Address api)) (proposal_data rp))
               (rocketpool_proposals db)) \<and>
        (ep \<noteq> None \<longrightarrow> same_tables dbp db \<and> commits (journal dbp) = commits (journal db))))"
    by (rule impI) (rule SaveProposals_single_tx)
qed

theorem Save_batches_share_one_transaction_witness:
  "same_tables (snd (SaveMinipools (fails_at 2) chain_up engine_many empty_db)) empty_db \<and>
   commits (journal (snd (SaveMinipools (fails_at 2) chain_up engine_many empty_db))) = 0 \<and>
   begins (journal (snd (SaveMinipools (fails_at 2) chain_up engine_many empty_db))) = 1 \<and>
   begins (journal (snd (SaveMinipools (\<lambda>n. None) chain_up engine1 stored))) = 1 \<and>
   journal (snd (SaveMinipools (\<lambda>n. None) chain_up engine1 stored)) ! 0 = Begin True \<and>
   execs_on ''rocketpool_minipools''
     (journal (snd (SaveMinipools (\<lambda>n. None) chain_up engine1 stored))) = 1 \<and>
   length (journal (snd (SaveMinipools (\<lambda>n. None) chain_up engine1 stored))) = 3 \<and>
   commits (journal (snd (SaveMinipools (\<lambda>n. None) chain_up engine1 stored))) = 1 \<and>
   last (journal (snd (SaveMinipools (\<lambda>n. None) chain_up engine1 stored))) = Commit True \<and>
   same_tables (snd (SaveNodes (fails_at 1) chain_up engine1 stored)) stored \<and>
   execs_on ''rocketpool_nodes'' (journal (snd (SaveNodes (\<lambda>n. None) chain_up engine1 stored))) = 1 \<and>
   snd (SaveProposals (\<lambda>n. None) chain_up engine1 stored) = stored"
proof -
  have m1: "SaveMinipools (fails_at 2) chain_up engine_many empty_db =
      (Some (DBError 1), snd (SaveMinipools (fails_at 2) chain_up engine_many empty_db))"
    using many_second_batch_fails by simp
  have j0: "journal empty_db = []" "journal stored = []"
    by (simp_all add: empty_db_def stored_def)
  have len: "length (MinipoolsByAddress engine1) = 1" "length (NodesByAddress engine1) = 1"
    "length (ProposalsByID engine1) = 0"
    by (simp_all add: engine1_def fresh_engine_def)
  have dl: "length (minipool_data engine1) = 1" "length (node_data engine1) = 1"
    by (simp_all add: minipool_data_def node_data_def len)
  have m2: "fst (SaveMinipools (\<lambda>n. None) chain_up engine1 stored) = None"
    by (simp add: SaveMinipools_def len dl save_tx_def Beginx_def save_batches_unfold
        save_batches_done tx_Exec_def tx_Commit_def batchSize_def)
  have n1: "fst (SaveNodes (fails_at 1) chain_up engine1 stored) \<noteq> None"
    by (simp add: SaveNodes_def len dl save_tx_def Beginx_def save_batches_unfold
        save_batches_done tx_Exec_def fails_at_def j0 batchSize_def)
  have n2: "fst (SaveNodes (\<lambda>n. None) chain_up engine1 stored) = None"
    by (simp add: SaveNodes_def len dl save_tx_def Beginx_def save_batches_unfold
        save_batches_done tx_Exec_def tx_Commit_def batchSize_def)
  have p2: "fst (SaveProposals (\<lambda>n. None) chain_up engine1 stored) = None"
    by (simp add: SaveProposals_def len)
  have pm: "SaveMinipools (\<lambda>n. None) chain_up engine1 stored =
      (None, snd (SaveMinipools (\<lambda>n. None) chain_up engine1 stored))"
    using m2 by (metis prod.collapse)
  have pn: "SaveNodes (\<lambda>n. None) chain_up engine1 stored =
      (None, snd (SaveNodes (\<lambda>n. None) chain_up engine1 stored))"
    using n2 by (metis prod.collapse)
  have pp: "SaveProposals (\<lambda>n. None) chain_up engine1 stored =
      (None, snd (SaveProposals (\<lambda>n. None) chain_up engine1 stored))"
    using p2 by (metis prod.collapse)
  obtain err where pf: "SaveNodes (fails_at 1) chain_up engine1 stored =
      (Some err, snd (SaveNodes (fails_at 1) chain_up engine1 stored))"
    using n1 by (metis prod.collapse not_None_eq)
  note T = Save_batches_share_one_transaction
  have a: "same_tables (snd (SaveMinipools (fails_at 2) chain_up engine_many empty_db)) empty_db \<and>
      commits (journal (snd (SaveMinipools (fails_at 2) chain_up engine_many empty_db))) = 0 \<and>
      begins (journal (snd (SaveMinipools (fails_at 2) chain_up engine_many empty_db))) = 1"
    using T [THEN conjunct1, THEN mp, OF m1] by (simp add: j0 many_length)
  have b: "begins (journal (snd (SaveMinipools (\<lambda>n. None) chain_up engine1 stored))) = 1 \<and>
      journal (snd (SaveMinipools (\<lambda>n. None) chain_up engine1 stored)) ! 0 = Begin True \<and>
      execs_on ''rocketpool_minipools''
        (journal (snd (SaveMinipools (\<lambda>n. None) chain_up engine1 stored))) = 1 \<and>
      length (journal (snd (SaveMinipools (\<lambda>n. None) chain_up engine1 stored))) = 3 \<and>
      commits (journal (snd (SaveMinipools (\<lambda>n. None) chain_up engine1 stored))) = 1 \<and>
      last (journal (snd (SaveMinipools (\<lambda>n. None) chain_up engine1 stored))) = Commit True"
    using T [THEN conjunct1, THEN mp, OF pm] by (simp add: j0 len batchSize_def)
  have c: "same_tables (snd (SaveNodes (fails_at 1) chain_up engine1 stored)) stored"
    using T [THEN conjunct2, THEN conjunct1, THEN mp, OF pf] by (simp add: len)
  have d: "execs_on ''rocketpool_nodes''
      (journal (snd (SaveNodes (\<lambda>n. None) chain_up engine1 stored))) = 1"
    using T [THEN conjunct2, THEN conjunct1, THEN mp, OF pn] by (simp add: j0 len batchSize_def)
  have e: "snd (SaveProposals (\<lambda>n. None) chain_up engine1 stored) = stored"
    using T [THEN conjunct2, THEN conjunct2, THEN mp, OF pp] by (simp add: len)
  from a b c d e show ?thesis
    by blast
qed

section \<open>The order of the persist step\<close>

lemma save_tx_frame:
  assumes p1: "\<And>b w. P (stmt b w) = P w"
    and p2: "\<And>w j. P (w\<lparr>journal := j\<rparr>) = P w"
    and run: "save_tx orc table stmt data db = (e, db')"
  shows "P db' = P db"
proof -
  obtain e0 w0 where b: "Beginx orc db = (e0, w0)"
    by (cases "Beginx orc db")
  note w0 = Beginx_cases [OF b]
  obtain e1 w1 where l: "save_batches orc table stmt data 0 w0 = (e1, w1)"
    by (cases "save_batches orc table stmt data 0 w0")
  have pw1: "P w1 = P db"
    using save_batches_frame [of P stmt, OF p1 p2 l] w0 p2 by simp
  obtain e2 d2 where c: "tx_Commit orc db w1 = (e2, d2)"
    by (cases "tx_Commit orc db w1")
  note d2 = tx_Commit_cases [OF c]
  show ?thesis
  proof (cases e0)
    case (Some err)
    with run b have "db' = w0" by (simp add: save_tx_def)
    with w0 p2 show ?thesis by simp
  next
    case None
    note e0 = this
    show ?thesis
    proof (cases e1)
      case (Some err)
      with run b l e0 have "db' = tx_Rollback db w1"
        by (simp add: save_tx_def)
      with p2 show ?thesis by (simp add: tx_Rollback_def)
    next
      case None
      with run b l e0 c have "db' = d2"
        by (simp add: save_tx_def)
      with d2 pw1 p2 show ?thesis
        by (cases e2) simp_all
    qed
  qed
qed

lemma SaveMinipools_frame:
  assumes "SaveMinipools orc api rp db = (e, db')"
  shows "rocketpool_nodes db' = rocketpool_nodes db"
    and "rocketpool_proposals db' = rocketpool_proposals db"
    and "t \<noteq> ''rocketpool_minipools'' \<Longrightarrow> execs_on t (journal db') = execs_on t (journal db)"
proof -
  have "rocketpool_nodes db' = rocketpool_nodes db \<and>
    rocketpool_proposals db' = rocketpool_proposals db \<and>
    (t \<noteq> ''rocketpool_minipools'' \<longrightarrow> execs_on t (journal db') = execs_on t (journal db))"
  proof (cases "length (MinipoolsByAddress rp) = 0")
    case True
    with assms show ?thesis by (simp add: SaveMinipools_def)
  next
    case False
    with assms have run: "save_tx orc ''rocketpool_minipools''
        (minipools_stmt (RocketStorageContract_Address api)) (minipool_data rp) db = (e, db')"
      by (simp add: SaveMinipools_def)
    from save_tx_frame [of rocketpool_nodes, OF _ _ run]
      save_tx_frame [of rocketpool_proposals, OF _ _ run]
      save_tx_journal(2) [OF minipools_stmt_props(1) run, of t]
    show ?thesis by (simp add: minipools_stmt_props)
  qed
  then show "rocketpool_nodes db' = rocketpool_nodes db"
    and "rocketpool_proposals db' = rocketpool_proposals db"
    and "t \<noteq> ''rocketpool_minipools'' \<Longrightarrow> execs_on t (journal db') = execs_on t (journal db)"
    by simp_all
qed

lemma SaveNodes_frame:
  assumes "SaveNodes orc api rp db = (e, db')"
  shows "rocketpool_minipools db' = rocketpool_minipools db"
    and "rocketpool_proposals db' = rocketpool_proposals db"
    and "t \<noteq> ''rocketpool_nodes'' \<Longrightarrow> execs_on t (journal db') = execs_on t (journal db)"
proof -
  have "rocketpool_minipools db' = rocketpool_minipools db \<and>
    rocketpool_proposals db' = rocketpool_proposals db \<and>
    (t \<noteq> ''rocketpool_nodes'' \<longrightarrow> execs_on t (journal db') = execs_on t (journal db))"
  proof (cases "length (NodesByAddress rp) = 0")
    case True
    with assms show ?thesis by (simp add: SaveNodes_def)
  next
    case False
    with assms have run: "save_tx orc ''rocketpool_nodes''
        (nodes_stmt (RocketStorageContract_Address api)) (node_data rp) db = (e, db')"
      by (simp add: SaveNodes_def)
    from save_tx_frame [of rocketpool_minipools, OF _ _ run]
      save_tx_frame [of rocketpool_proposals, OF _ _ run]
      save_tx_journal(2) [OF nodes_stmt_props(1) run, of t]
    show ?thesis by (simp add: nodes_stmt_props)
  qed
  then show "rocketpool_minipools db' = rocketpool_minipools db"
    and "rocketpool_proposals db' = rocketpool_proposals db"
    and "t \<noteq> ''rocketpool_nodes'' \<Longrightarrow> execs_on t (journal db') = execs_on t (journal db)"
    by simp_all
qed

lemmas save_eval = SaveMinipools_def SaveNodes_def SaveProposals_def save_tx_def Beginx_def
  save_batches_unfold save_batches_done tx_Exec_def tx_Commit_def tx_Rollback_def batchSize_def
  fails_at_def minipools_stmt_props nodes_stmt_props proposals_stmt_props

lemma engine1_sizes:
  "length (MinipoolsByAddress engine1) = 1" "length (NodesByAddress engine1) = 1"
  "length (ProposalsByID engine1) = 0"
  "length (minipool_data engine1) = 1" "length (node_data engine1) = 1"
  by (simp_all add: engine1_def fresh_engine_def minipool_data_def node_data_def)

lemma stored_journal: "journal stored = []"
  by (simp add: stored_def)

text \<open>
  Claim C10. \<^verbatim>\<open>Save\<close> persists the minipools, then the nodes, then the proposals, and
  stops at the first failure. When persisting the minipools fails, that error is the
  result, the tables of the nodes and of the proposals are as before and no statement
  has been sent to them. When the minipools succeed and the nodes fail, that error is
  the result, and the table of the proposals is as before with no statement sent to it.
  When both succeed, the result is the one of persisting the proposals, done last.
\<close>

theorem Save_stops_at_first_failure:
  "(SaveMinipools orc api rp db = (Some err, db1) \<longrightarrow>
      Save orc api rp db = (Some err, db1) \<and>
      rocketpool_nodes db1 = rocketpool_nodes db \<and>
      rocketpool_proposals db1 = rocketpool_proposals db \<and>
      execs_on ''rocketpool_nodes'' (journal db1) = execs_on ''rocketpool_nodes'' (journal db) \<and>
      execs_on ''rocketpool_proposals'' (journal db1) =
        execs_on ''rocketpool_proposals'' (journal db)) \<and>
   (SaveMinipools orc api rp db = (None, db1) \<longrightarrow>
    SaveNodes orc api rp db1 = (Some err, db2) \<longrightarrow>
      Save orc api rp db = (Some err, db2) \<and>
      rocketpool_proposals db2 = rocketpool_proposals db \<and>
      execs_on ''rocketpool_proposals'' (journal db2) =
        execs_on ''rocketpool_proposals'' (journal db)) \<and>
   (SaveMinipools orc api rp db = (None, db1) \<longrightarrow>
    SaveNodes orc api rp db1 = (None, db2) \<longrightarrow>
      Save orc api rp db = SaveProposals orc api rp db2)"
proof (intro conjI impI)
  assume m: "SaveMinipools orc api rp db = (Some err, db1)"
  then show "Save orc api rp db = (Some err, db1)"
    by (simp add: Save_def)
  from SaveMinipools_frame [OF m]
  show "rocketpool_nodes db1 = rocketpool_nodes db"
    and "rocketpool_proposals db1 = rocketpool_proposals db"
    and "execs_on ''rocketpool_nodes'' (journal db1) = execs_on ''rocketpool_nodes'' (journal db)"
    and "execs_on ''rocketpool_proposals'' (journal db1) =
      execs_on ''rocketpool_proposals'' (journal db)"
    by simp_all
next
  assume m: "SaveMinipools orc api rp db = (None, db1)"
    and n: "SaveNodes orc api rp db1 = (Some err, db2)"
  then show "Save orc api rp db = (Some err, db2)"
    by (simp add: Save_def)
  from SaveMinipools_frame [OF m] SaveNodes_frame [OF n]
  show "rocketpool_proposals db2 = rocketpool_proposals db"
    and "execs_on ''rocketpool_proposals'' (journal db2) =
      execs_on ''rocketpool_proposals'' (journal db)"
    by simp_all
next
  assume m: "SaveMinipools orc api rp db = (None, db1)"
    and n: "SaveNodes orc api rp db1 = (None, db2)"
  then show "Save orc api rp db = SaveProposals orc api rp db2"
    by (cases "SaveProposals orc api rp db2") (auto simp: Save_def split: option.splits)
qed

theorem Save_stops_at_first_failure_witness:
  "snd (Save (fails_at 1) chain_up engine1 stored) =
     snd (SaveMinipools (fails_at 1) chain_up engine1 stored) \<and>
   fst (Save (fails_at 1) chain_up engine1 stored) = Some (DBError 1) \<and>
   rocketpool_nodes (snd (Save (fails_at 1) chain_up engine1 stored)) = rocketpool_nodes stored \<and>
   rocketpool_proposals (snd (Save (fails_at 1) chain_up engine1 stored)) =
     rocketpool_proposals stored \<and>
   fst (Save (fails_at 4) chain_up engine1 stored) = Some (DBError 1) \<and>
   rocketpool_proposals (snd (Save (fails_at 4) chain_up engine1 stored)) =
     rocketpool_proposals stored \<and>
   Save (\<lambda>n. None) chain_up engine1 stored =
     SaveProposals (\<lambda>n. None) chain_up engine1
       (snd (SaveNodes (\<lambda>n. None) chain_up engine1
          (snd (SaveMinipools (\<lambda>n. None) chain_up engine1 stored))))"
proof -
  let ?d1 = "snd (SaveMinipools (fails_at 1) chain_up engine1 stored)"
  let ?d4 = "snd (SaveMinipools (fails_at 4) chain_up engine1 stored)"
  let ?d0 = "snd (SaveMinipools (\<lambda>n. None) chain_up engine1 stored)"
  have f1: "fst (SaveMinipools (fails_at 1) chain_up engine1 stored) = Some (DBError 1)"
    by (simp add: save_eval engine1_sizes stored_journal)
  have m1: "SaveMinipools (fails_at 1) chain_up engine1 stored = (Some (DBError 1), ?d1)"
    using f1 by (simp add: prod_eq_iff)
  have f4: "fst (SaveMinipools (fails_at 4) chain_up engine1 stored) = None"
    by (simp add: save_eval engine1_sizes stored_journal)
  have m4: "SaveMinipools (fails_at 4) chain_up engine1 stored = (None, ?d4)"
    using f4 by (simp add: prod_eq_iff)
  have j4: "length (journal ?d4) = 3"
    by (simp add: save_eval engine1_sizes stored_journal)
  have g4: "fst (SaveNodes (fails_at 4) chain_up engine1 ?d4) = Some (DBError 1)"
    by (simp add: SaveNodes_def save_tx_def Beginx_def save_batches_unfold save_batches_done
        tx_Exec_def tx_Rollback_def batchSize_def fails_at_def engine1_sizes j4)
  have n4: "SaveNodes (fails_at 4) chain_up engine1 ?d4 =
      (Some (DBError 1), snd (SaveNodes (fails_at 4) chain_up engine1 ?d4))"
    using g4 by (simp add: prod_eq_iff)
  have f0: "fst (SaveMinipools (\<lambda>n. None) chain_up engine1 stored) = None"
    by (simp add: save_eval engine1_sizes stored_journal)
  have m0: "SaveMinipools (\<lambda>n. None) chain_up engine1 stored = (None, ?d0)"
    using f0 by (simp add: prod_eq_iff)
  have g0: "fst (SaveNodes (\<lambda>n. None) chain_up engine1 ?d0) = None"
    by (simp add: SaveNodes_def save_tx_def Beginx_def save_batches_unfold save_batches_done
        tx_Exec_def tx_Commit_def batchSize_def engine1_sizes)
  have n0: "SaveNodes (\<lambda>n. None) chain_up engine1 ?d0 =
      (None, snd (SaveNodes (\<lambda>n. None) chain_up engine1 ?d0))"
    using g0 by (simp add: prod_eq_iff)
  note T = Save_stops_at_first_failure
  from T [THEN conjunct1, THEN mp, OF m1]
  have a: "snd (Save (fails_at 1) chain_up engine1 stored) =
      snd (SaveMinipools (fails_at 1) chain_up engine1 stored) \<and>
    fst (Save (fails_at 1) chain_up engine1 stored) = Some (DBError 1) \<and>
    rocketpool_nodes (snd (Save (fails_at 1) chain_up engine1 stored)) = rocketpool_nodes stored \<and>
    rocketpool_proposals (snd (Save (fails_at 1) chain_up engine1 stored)) =
      rocketpool_proposals stored"
    by simp
  from T [THEN conjunct2, THEN conjunct1, THEN mp, THEN mp, OF m4 n4]
  have b0: "Save (fails_at 4) chain_up engine1 stored =
      (Some (DBError 1), snd (SaveNodes (fails_at 4) chain_up engine1 ?d4)) \<and>
    rocketpool_proposals (snd (SaveNodes (fails_at 4) chain_up engine1 ?d4)) =
      rocketpool_proposals stored"
    by blast
  then
  have b: "fst (Save (fails_at 4) chain_up engine1 stored) = Some (DBError 1) \<and>
    rocketpool_proposals (snd (Save (fails_at 4) chain_up engine1 stored)) =
      rocketpool_proposals stored"
    by simp
  from T [THEN conjunct2, THEN conjunct2, THEN mp, THEN mp, OF m0 n0]
  have c: "Save (\<lambda>n. None) chain_up engine1 stored =
     SaveProposals (\<lambda>n. None) chain_up engine1
       (snd (SaveNodes (\<lambda>n. None) chain_up engine1
          (snd (SaveMinipools (\<lambda>n. None) chain_up engine1 stored))))" .
  from a b c show ?thesis by blast
qed

section \<open>The scheduler loop\<close>

lemma save_batches_no_fault:
  assumes "\<And>n. orc n = None"
  shows "fst (save_batches orc table stmt data b w) = None"
proof (induction "length data - b" arbitrary: b w rule: less_induct)
  case less
  show ?case
  proof (cases "b < length data")
    case True
    then have "length data - (b + batchSize) < length data - b"
      by (simp add: batchSize_def)
    from less [OF this] show ?thesis
      by (simp add: save_batches_unfold [OF True] tx_Exec_def assms)
  next
    case False
    then show ?thesis by (simp add: save_batches_done)
  qed
qed

lemma save_tx_no_fault:
  assumes "\<And>n. orc n = None"
  shows "fst (save_tx orc table stmt data db) = None"
proof -
  let ?w = "db\<lparr>journal := journal db @ [Begin True]\<rparr>"
  have "fst (save_batches orc table stmt data 0 ?w) = None"
    using assms by (rule save_batches_no_fault)
  then obtain w1 where "save_batches orc table stmt data 0 ?w = (None, w1)"
    by (cases "save_batches orc table stmt data 0 ?w") simp
  then show ?thesis
    by (simp add: save_tx_def Beginx_def tx_Commit_def assms)
qed

lemma Save_no_fault:
  assumes "\<And>n. orc n = None"
  shows "fst (Save orc api rp db) = None"
proof -
  have "fst (SaveMinipools orc api rp db) = None"
    by (simp add: SaveMinipools_def save_tx_no_fault [OF assms])
  then obtain db1 where m: "SaveMinipools orc api rp db = (None, db1)"
    by (cases "SaveMinipools orc api rp db") simp
  have "fst (SaveNodes orc api rp db1) = None"
    by (simp add: SaveNodes_def save_tx_no_fault [OF assms])
  then obtain db2 where n: "SaveNodes orc api rp db1 = (None, db2)"
    by (cases "SaveNodes orc api rp db1") simp
  have "fst (SaveProposals orc api rp db2) = None"
    by (simp add: SaveProposals_def save_tx_no_fault [OF assms])
  then obtain db3 where p: "SaveProposals orc api rp db2 = (None, db3)"
    by (cases "SaveProposals orc api rp db2") simp
  show ?thesis
    by (simp add: Save_def m n p)
qed

lemmas update_eval = Update_def UpdateProposals_def NewRocketpoolProposal_def
  RocketpoolProposal_Update_def details_def chain_down_def zero_Proposal_def split_def

lemma Update_down: "fst (Update chain_down fresh_engine) = Some (ChainError 2)"
  by (simp add: update_eval refresh_eval)

lemma Update_up: "fst (Update chain_up fresh_engine) = None"
  by (simp add: update_eval refresh_eval)

lemma Update_up_minipools: "length (MinipoolsByAddress (snd (Update chain_up fresh_engine))) = 2"
  by (simp add: update_eval refresh_eval)

text \<open>
  Claim C9. In every iteration of the loop of \<^verbatim>\<open>Run\<close>: when \<^verbatim>\<open>Update\<close> fails,
  \<^verbatim>\<open>Save\<close> is not called (the database, its journal included, is the one before the
  iteration), the error is logged and the loop sleeps two seconds without waiting for
  the tick; when \<^verbatim>\<open>Update\<close> succeeds and \<^verbatim>\<open>Save\<close> fails, the same with the error of
  \<^verbatim>\<open>Save\<close>; when both succeed the loop logs the export and waits for the tick.
\<close>

theorem Run_saves_only_after_refresh:
  "Run n orc chain s0 = (rp, db, trace) \<longrightarrow>
     (Update (chain n) rp = (Some err, rp1) \<longrightarrow>
        Run (Suc n) orc chain s0 =
          (rp1, db, trace @ [LogError ''error updating rocketpool-data'' err, Sleep 2])) \<and>
     (Update (chain n) rp = (None, rp1) \<longrightarrow> Save orc (chain n) rp1 db = (Some err, db1) \<longrightarrow>
        Run (Suc n) orc chain s0 =
          (rp1, db1, trace @ [LogError ''error saving rocketpool-data'' err, Sleep 2])) \<and>
     (Update (chain n) rp = (None, rp1) \<longrightarrow> Save orc (chain n) rp1 db = (None, db1) \<longrightarrow>
        Run (Suc n) orc chain s0 =
          (rp1, db1, trace @ [LogInfo ''exported rocketpool-data'', Tick]))"
  by (simp add: Run_cycle_def)

theorem Run_saves_only_after_refresh_witness:
  "Run 1 (\<lambda>n. None) (\<lambda>n. chain_down) (fresh_engine, stored, []) =
     (snd (Update chain_down fresh_engine), stored,
      [LogError ''error updating rocketpool-data'' (ChainError 2), Sleep 2]) \<and>
   snd (snd (Run 1 (fails_at 0) (\<lambda>n. chain_up) (fresh_engine, stored, []))) =
     [LogError ''error saving rocketpool-data'' (DBError 1), Sleep 2] \<and>
   snd (snd (Run 1 (\<lambda>n. None) (\<lambda>n. chain_up) (fresh_engine, stored, []))) =
     [LogInfo ''exported rocketpool-data'', Tick]"
proof -
  let ?down = "snd (Update chain_down fresh_engine)"
  let ?up = "snd (Update chain_up fresh_engine)"
  have r0: "Run 0 orc chain (fresh_engine, stored, []) = (fresh_engine, stored, [])" for orc chain
    by simp
  have ud: "Update chain_down fresh_engine = (Some (ChainError 2), ?down)"
    using Update_down by (simp add: prod_eq_iff)
  have uu: "Update chain_up fresh_engine = (None, ?up)"
    using Update_up by (simp add: prod_eq_iff)
  have "fst (Save (fails_at 0) chain_up ?up stored) = Some (DBError 1)"
    by (simp add: Save_def SaveMinipools_def save_tx_def Beginx_def fails_at_def
        Update_up_minipools stored_journal)
  then have sf: "Save (fails_at 0) chain_up ?up stored =
      (Some (DBError 1), snd (Save (fails_at 0) chain_up ?up stored))"
    by (simp add: prod_eq_iff)
  have "fst (Save (\<lambda>n. None) chain_up ?up stored) = None"
    by (rule Save_no_fault) simp
  then have ss: "Save (\<lambda>n. None) chain_up ?up stored =
      (None, snd (Save (\<lambda>n. None) chain_up ?up stored))"
    by (simp add: prod_eq_iff)
  note T = Run_saves_only_after_refresh
  have a: "Run 1 (\<lambda>n. None) (\<lambda>n. chain_down) (fresh_engine, stored, []) =
     (?down, stored, [LogError ''error updating rocketpool-data'' (ChainError 2), Sleep 2])"
    using T [of 0 "\<lambda>n. None" "\<lambda>n. chain_down" "(fresh_engine, stored, [])" fresh_engine stored
        "[]" "ChainError 2" ?down, THEN mp, OF r0, THEN conjunct1, THEN mp, OF ud]
    by simp
  have b: "Run 1 (fails_at 0) (\<lambda>n. chain_up) (fresh_engine, stored, []) =
     (?up, snd (Save (fails_at 0) chain_up ?up stored),
      [LogError ''error saving rocketpool-data'' (DBError 1), Sleep 2])"
    using T [of 0 "fails_at 0" "\<lambda>n. chain_up" "(fresh_engine, stored, [])" fresh_engine stored
        "[]" "DBError 1" ?up "snd (Save (fails_at 0) chain_up ?up stored)",
        THEN mp, OF r0, THEN conjunct2, THEN conjunct1, THEN mp, THEN mp, OF uu sf]
    by simp
  have c: "Run 1 (\<lambda>n. None) (\<lambda>n. chain_up) (fresh_engine, stored, []) =
     (?up, snd (Save (\<lambda>n. None) chain_up ?up stored),
      [LogInfo ''exported rocketpool-data'', Tick])"
    using T [of 0 "\<lambda>n. None" "\<lambda>n. chain_up" "(fresh_engine, stored, [])" fresh_engine stored
        "[]" _ ?up "snd (Save (\<lambda>n. None) chain_up ?up stored)",
        THEN mp, OF r0, THEN conjunct2, THEN conjunct2, THEN mp, THEN mp, OF uu ss]
    by simp
  show ?thesis
    by (simp only: a b c snd_conv simp_thms)
qed

section \<open>What a conflict of the key updates\<close>

lemma map_of_upsert:
  "map_of (upsert f (k, ex) t) =
     (map_of t)(k \<mapsto> (case map_of t k of None \<Rightarrow> ex | Some old \<Rightarrow> f old ex))"
  by (induction t) (auto simp: fun_eq_iff)

lemma map_of_insert_values:
  "distinct (map fst vals) \<Longrightarrow>
   map_of (insert_values f vals t) k =
     (case map_of vals k of
        None \<Rightarrow> map_of t k
      | Some ex \<Rightarrow> Some (case map_of t k of None \<Rightarrow> ex | Some old \<Rightarrow> f old ex))"
proof (induction vals arbitrary: t)
  case Nil
  then show ?case by (simp add: insert_values_def)
next
  case (Cons v vals)
  obtain k' ex where v: "v = (k', ex)" by (cases v)
  from Cons.prems v have d: "distinct (map fst vals)" and n: "k' \<notin> fst ` set vals"
    by simp_all
  have step: "insert_values f ((k', ex) # vals) t = insert_values f vals (upsert f (k', ex) t)"
    by (simp add: insert_values_def)
  have ih: "map_of (insert_values f (v # vals) t) k =
      (case map_of vals k of
         None \<Rightarrow> map_of (upsert f (k', ex) t) k
       | Some ex' \<Rightarrow>
           Some (case map_of (upsert f (k', ex) t) k of None \<Rightarrow> ex' | Some old \<Rightarrow> f old ex'))"
    unfolding v step by (rule Cons.IH [OF d])
  show ?case
  proof (cases "k = k'")
    case True
    with n have "map_of vals k = None"
      by (simp add: map_of_eq_None_iff)
    with True show ?thesis
      unfolding ih by (simp add: v map_of_upsert)
  next
    case False
    then have "map_of (upsert f (k', ex) t) k = map_of t k"
      by (simp add: map_of_upsert)
    with False show ?thesis
      unfolding ih by (simp add: v split: option.split)
  qed
qed

lemma upsert_row:
  assumes dist: "distinct (map fst (map g data))"
    and d: "d \<in> set data"
    and old: "map_of t (fst (g d)) = Some old"
  shows "map_of (insert_values f (map g data) t) (fst (g d)) = Some (f old (snd (g d)))"
proof -
  from d have "g d \<in> set (map g data)"
    by simp
  then have "(fst (g d), snd (g d)) \<in> set (map g data)"
    by simp
  with dist have "map_of (map g data) (fst (g d)) = Some (snd (g d))"
    by (rule map_of_is_SomeI)
  with old show ?thesis
    by (simp add: map_of_insert_values [OF dist])
qed

lemma distinct_keys:
  assumes "distinct (map k data)" and "\<And>d. fst (g d) = (scope, k d)"
  shows "distinct (map fst (map g data))"
proof -
  have "map fst (map g data) = map (Pair scope) (map k data)"
    by (simp add: assms(2))
  with assms(1) show ?thesis
    by (simp add: distinct_map inj_on_def)
qed


lemma minipool_key: "fst (minipool_values scope d) = (scope, RocketpoolMinipool.Address d)"
  by (simp add: minipool_values_def)

lemma node_key: "fst (node_values scope d) = (scope, RocketpoolNode.Address d)"
  by (simp add: node_values_def)

lemma proposal_key: "fst (proposal_values scope d) = (scope, ID d)"
  by (simp add: proposal_values_def)

lemma minipool_conflict_row:
  "minipool_conflict old (snd (minipool_values scope d)) =
     \<lparr>pubkey = Pubkey d, status = Status d, status_time = StatusTime d,
      node_address = NodeAddress d, node_fee = NodeFee d, deposit_type = DepositType d\<rparr>"
  by (cases old) (simp add: minipool_conflict_def minipool_values_def)

lemma node_conflict_row:
  "node_conflict old (snd (node_values scope d)) =
     \<lparr>timezone_location = timezone_location old, rpl_stake = big_String (RPLStake d),
      min_rpl_stake = big_String (MinRPLStake d), max_rpl_stake = big_String (MaxRPLStake d)\<rparr>"
  by (cases old) (simp add: node_conflict_def node_values_def)

lemma proposal_conflict_row:
  "proposal_conflict old (snd (proposal_values scope d)) =
     \<lparr>dao = DAO d, proposer_address = ProposerAddress d, message = Message d,
      created_time = CreatedTime d, start_time = StartTime d, end_time = EndTime d,
      expiry_time = ExpiryTime d, votes_required = VotesRequired d, votes_for = VotesFor d,
      votes_against = VotesAgainst d, member_voted = MemberVoted d,
      member_supported = MemberSupported d, is_cancelled = IsCancelled d,
      is_executed = IsExecuted d, payload = Payload d, state = State d\<rparr>"
  by (cases old) (simp add: proposal_conflict_def proposal_values_def)

lemma SaveMinipools_conflict:
  assumes run: "SaveMinipools orc api rp db = (None, db')"
    and dist: "distinct (map RocketpoolMinipool.Address (minipool_data rp))"
    and d: "d \<in> set (minipool_data rp)"
    and old: "map_of (rocketpool_minipools db)
        (RocketStorageContract_Address api, RocketpoolMinipool.Address d) = Some old"
  shows "map_of (rocketpool_minipools db')
      (RocketStorageContract_Address api, RocketpoolMinipool.Address d) =
    Some \<lparr>pubkey = Pubkey d, status = Status d, status_time = StatusTime d,
      node_address = NodeAddress d, node_fee = NodeFee d, deposit_type = DepositType d\<rparr>"
proof -
  let ?g = "minipool_values (RocketStorageContract_Address api)"
  have k: "distinct (map fst (map ?g (minipool_data rp)))"
    using dist minipool_key by (rule distinct_keys)
  from old have "map_of (rocketpool_minipools db) (fst (?g d)) = Some old"
    by (simp only: minipool_key)
  from upsert_row [OF k d this, of minipool_conflict] show ?thesis
    by (simp only: SaveMinipools_rows [OF run] minipool_key minipool_conflict_row)
qed

lemma SaveNodes_conflict:
  assumes run: "SaveNodes orc api rp db = (None, db')"
    and dist: "distinct (map RocketpoolNode.Address (node_data rp))"
    and d: "d \<in> set (node_data rp)"
    and old: "map_of (rocketpool_nodes db)
        (RocketStorageContract_Address api, RocketpoolNode.Address d) = Some old"
  shows "map_of (rocketpool_nodes db')
      (RocketStorageContract_Address api, RocketpoolNode.Address d) =
    Some \<lparr>timezone_location = timezone_location old, rpl_stake = big_String (RPLStake d),
      min_rpl_stake = big_String (MinRPLStake d), max_rpl_stake = big_String (MaxRPLStake d)\<rparr>"
proof -
  let ?g = "node_values (RocketStorageContract_Address api)"
  have k: "distinct (map fst (map ?g (node_data rp)))"
    using dist node_key by (rule distinct_keys)
  from old have "map_of (rocketpool_nodes db) (fst (?g d)) = Some old"
    by (simp only: node_key)
  from upsert_row [OF k d this, of node_conflict] show ?thesis
    by (simp only: SaveNodes_rows [OF run] node_key node_conflict_row)
qed

lemma SaveProposals_conflict:
  assumes run: "SaveProposals orc api rp db = (None, db')"
    and dist: "distinct (map ID (proposal_data rp))"
    and d: "d \<in> set (proposal_data rp)"
    and old: "map_of (rocketpool_proposals db) (RocketStorageContract_Address api, ID d) = Some old"
  shows "map_of (rocketpool_proposals db') (RocketStorageContract_Address api, ID d) =
    Some \<lparr>dao = DAO d, proposer_address = ProposerAddress d, message = Message d,
      created_time = CreatedTime d, start_time = StartTime d, end_time = EndTime d,
      expiry_time = ExpiryTime d, votes_required = VotesRequired d, votes_for = VotesFor d,
      votes_against = VotesAgainst d, member_voted = MemberVoted d,
      member_supported = MemberSupported d, is_cancelled = IsCancelled d,
      is_executed = IsExecuted d, payload = Payload d, state = State d\<rparr>"
proof -
  let ?g = "proposal_values (RocketStorageContract_Address api)"
  have k: "distinct (map fst (map ?g (proposal_data rp)))"
    using dist proposal_key by (rule distinct_keys)
  from old have "map_of (rocketpool_proposals db) (fst (?g d)) = Some old"
    by (simp only: proposal_key)
  from upsert_row [OF k d this, of proposal_conflict] show ?thesis
    by (simp only: SaveProposals_rows [OF run] proposal_key proposal_conflict_row)
qed

lemma fresh_refresh_data:
  "minipool_data (snd (Update chain_up fresh_engine)) =
     [\<lparr>RocketpoolMinipool.Address = addr1, Pubkey = addr1 @ [5], NodeAddress = addr2,
       NodeFee = 15, DepositType = ''Full'', Status = ''Staking'', StatusTime = 1630000000\<rparr>,
      \<lparr>RocketpoolMinipool.Address = addr2, Pubkey = addr2 @ [5], NodeAddress = addr2,
       NodeFee = 15, DepositType = ''Full'', Status = ''Staking'', StatusTime = 1630000000\<rparr>]"
  "node_data (snd (Update chain_up fresh_engine)) =
     [\<lparr>RocketpoolNode.Address = addr2, TimezoneLocation = ''Europe/Berlin'',
       RPLStake = Some 500, MinRPLStake = Some 160, MaxRPLStake = Some 2400\<rparr>]"
  "proposal_data (snd (Update chain_up fresh_engine)) =
     [\<lparr>ID = 1, DAO = ''rocketDAONodeTrustedProposals'', ProposerAddress = addr1,
       Message = ''invite'', CreatedTime = 100, StartTime = 200, EndTime = 300,
       ExpiryTime = 400, VotesRequired = 3, VotesFor = 2, VotesAgainst = 1,
       MemberVoted = True, MemberSupported = True, IsCancelled = False, IsExecuted = False,
       Payload = [7], State = ''Active''\<rparr>]"
  by (simp_all add: update_eval refresh_eval minipool_data_def node_data_def proposal_data_def)

lemma stored_rows:
  "rocketpool_minipools stored =
     [(([9], addr1), \<lparr>pubkey = [4, 2], status = ''Prelaunch'', status_time = 1620000000,
        node_address = addr2, node_fee = 15, deposit_type = ''Half''\<rparr>)]"
  "rocketpool_nodes stored =
     [(([9], addr2), \<lparr>timezone_location = ''UTC'', rpl_stake = ''100'',
        min_rpl_stake = ''10'', max_rpl_stake = ''1000''\<rparr>)]"
  "map_of (rocketpool_proposals stored) ([9], 1) = Some (snd (proposal_values [9] proposal1))"
  by (simp_all add: stored_def minipool_values_def node_values_def proposal_values_def
      minipool1_def node1_def proposal1_def big_String_def)


text \<open>
  Claim C3 says that on a conflict of the primary key the upsert sets every column
  outside the key to the newly read value, for nodes \<^verbatim>\<open>timezone_location\<close> included.
  The \<^verbatim>\<open>set\<close> clause of the statement of the nodes lists the three stakes only. The
  stored row of the node \<open>addr2\<close> has the timezone \<^verbatim>\<open>UTC\<close>; the engine, started with
  empty caches, reads the node from the chain with the timezone \<^verbatim>\<open>Europe/Berlin\<close> and
  persists it with success: the three stakes of the row are the ones read, its
  \<^verbatim>\<open>timezone_location\<close> is still \<^verbatim>\<open>UTC\<close>.
\<close>

theorem node_upsert_keeps_stored_timezone:
  "node_data (snd (Update chain_up fresh_engine)) =
     [\<lparr>RocketpoolNode.Address = addr2, TimezoneLocation = ''Europe/Berlin'',
       RPLStake = Some 500, MinRPLStake = Some 160, MaxRPLStake = Some 2400\<rparr>] \<and>
   rocketpool_nodes stored =
     [(([9], addr2), \<lparr>timezone_location = ''UTC'', rpl_stake = ''100'',
        min_rpl_stake = ''10'', max_rpl_stake = ''1000''\<rparr>)] \<and>
   fst (SaveNodes (\<lambda>n. None) chain_up (snd (Update chain_up fresh_engine)) stored) = None \<and>
   rocketpool_nodes
     (snd (SaveNodes (\<lambda>n. None) chain_up (snd (Update chain_up fresh_engine)) stored)) =
     [(([9], addr2), \<lparr>timezone_location = ''UTC'', rpl_stake = ''500'',
        min_rpl_stake = ''160'', max_rpl_stake = ''2400''\<rparr>)]"
proof -
  let ?rp = "snd (Update chain_up fresh_engine)"
  have f: "fst (SaveNodes (\<lambda>n. None) chain_up ?rp stored) = None"
    by (simp add: SaveNodes_def save_tx_no_fault)
  then have "SaveNodes (\<lambda>n. None) chain_up ?rp stored =
      (None, snd (SaveNodes (\<lambda>n. None) chain_up ?rp stored))"
    by (simp add: prod_eq_iff)
  note rows = SaveNodes_rows [OF this]
  have scope: "RocketStorageContract_Address chain_up = [9]"
    by (simp add: chain_up_def)
  have "rocketpool_nodes (snd (SaveNodes (\<lambda>n. None) chain_up ?rp stored)) =
      [(([9], addr2), \<lparr>timezone_location = ''UTC'', rpl_stake = ''500'',
         min_rpl_stake = ''160'', max_rpl_stake = ''2400''\<rparr>)]"
    by (simp add: rows scope fresh_refresh_data stored_rows insert_values_def node_values_def
        node_conflict_def big_String_def)
  with f show ?thesis
    by (simp add: fresh_refresh_data stored_rows)
qed

text \<open>
  Claim C3, amended. When persisting a kind succeeds and the cached entities have
  pairwise different identifiers, every cached entity whose key has a row already is
  written as follows. Minipools: the six columns outside the key hold the values of the
  cached entity. Nodes: \<^verbatim>\<open>rpl_stake\<close>, \<^verbatim>\<open>min_rpl_stake\<close> and \<^verbatim>\<open>max_rpl_stake\<close> hold the
  values of the cached entity, and \<^verbatim>\<open>timezone_location\<close> holds what the row held before.
  Proposals: the sixteen columns outside the key hold the values of the cached entity.
\<close>

theorem upsert_conflict_updates_listed_columns:
  "(SaveMinipools orc api rp db = (None, dbm) \<longrightarrow>
    distinct (map RocketpoolMinipool.Address (minipool_data rp)) \<longrightarrow>
    m \<in> set (minipool_data rp) \<longrightarrow>
    map_of (rocketpool_minipools db)
      (RocketStorageContract_Address api, RocketpoolMinipool.Address m) = Some oldm \<longrightarrow>
    map_of (rocketpool_minipools dbm)
      (RocketStorageContract_Address api, RocketpoolMinipool.Address m) =
      Some \<lparr>pubkey = Pubkey m, status = Status m, status_time = StatusTime m,
        node_address = NodeAddress m, node_fee = NodeFee m, deposit_type = DepositType m\<rparr>) \<and>
   (SaveNodes orc api rp db = (None, dbn) \<longrightarrow>
    distinct (map RocketpoolNode.Address (node_data rp)) \<longrightarrow>
    n \<in> set (node_data rp) \<longrightarrow>
    map_of (rocketpool_nodes db)
      (RocketStorageContract_Address api, RocketpoolNode.Address n) = Some oldn \<longrightarrow>
    map_of (rocketpool_nodes dbn)
      (RocketStorageContract_Address api, RocketpoolNode.Address n) =
      Some \<lparr>timezone_location = timezone_location oldn, rpl_stake = big_String (RPLStake n),
        min_rpl_stake = big_String (MinRPLStake n),
        max_rpl_stake = big_String (MaxRPLStake n)\<rparr>) \<and>
   (SaveProposals orc api rp db = (None, dbp) \<longrightarrow>
    distinct (map ID (proposal_data rp)) \<longrightarrow>
    p \<in> set (proposal_data rp) \<longrightarrow>
    map_of (rocketpool_proposals db) (RocketStorageContract_Address api, ID p) = Some oldp \<longrightarrow>
    map_of (rocketpool_proposals dbp) (RocketStorageContract_Address api, ID p) =
      Some \<lparr>dao = DAO p, proposer_address = ProposerAddress p, message = Message p,
        created_time = CreatedTime p, start_time = StartTime p, end_time = EndTime p,
        expiry_time = ExpiryTime p, votes_required = VotesRequired p, votes_for = VotesFor p,
        votes_against = VotesAgainst p, member_voted = MemberVoted p,
        member_supported = MemberSupported p, is_cancelled = IsCancelled p,
        is_executed = IsExecuted p, payload = Payload p, state = State p\<rparr>)"
proof (intro conjI impI)
  assume "SaveMinipools orc api rp db = (None, dbm)"
    "distinct (map RocketpoolMinipool.Address (minipool_data rp))"
    "m \<in> set (minipool_data rp)"
    "map_of (rocketpool_minipools db)
      (RocketStorageContract_Address api, RocketpoolMinipool.Address m) = Some oldm"
  then show "map_of (rocketpool_minipools dbm)
      (RocketStorageContract_Address api, RocketpoolMinipool.Address m) =
      Some \<lparr>pubkey = Pubkey m, status = Status m, status_time = StatusTime m,
        node_address = NodeAddress m, node_fee = NodeFee m, deposit_type = DepositType m\<rparr>"
    by (rule SaveMinipools_conflict)
next
  assume "SaveNodes orc api rp db = (None, dbn)"
    "distinct (map RocketpoolNode.Address (node_data rp))"
    "n \<in> set (node_data rp)"
    "map_of (rocketpool_nodes db)
      (RocketStorageContract_Address api, RocketpoolNode.Address n) = Some oldn"
  then show "map_of (rocketpool_nodes dbn)
      (RocketStorageContract_Address api, RocketpoolNode.Address n) =
      Some \<lparr>timezone_location = timezone_location oldn, rpl_stake = big_String (RPLStake n),
        min_rpl_stake = big_String (MinRPLStake n),
        max_rpl_stake = big_String (MaxRPLStake n)\<rparr>"
    by (rule SaveNodes_conflict)
next
  assume "SaveProposals orc api rp db = (None, dbp)"
    "distinct (map ID (proposal_data rp))"
    "p \<in> set (proposal_data rp)"
    "map_of (rocketpool_proposals db) (RocketStorageContract_Address api, ID p) = Some oldp"
  then show "map_of (rocketpool_proposals dbp) (RocketStorageContract_Address api, ID p) =
      Some \<lparr>dao = DAO p, proposer_address = ProposerAddress p, message = Message p,
        created_time = CreatedTime p, start_time = StartTime p, end_time = EndTime p,
        expiry_time = ExpiryTime p, votes_required = VotesRequired p, votes_for = VotesFor p,
        votes_against = VotesAgainst p, member_voted = MemberVoted p,
        member_supported = MemberSupported p, is_cancelled = IsCancelled p,
        is_executed = IsExecuted p, payload = Payload p, state = State p\<rparr>"
    by (rule SaveProposals_conflict)
qed

theorem upsert_conflict_updates_listed_columns_witness:
  "map_of (rocketpool_minipools
      (snd (SaveMinipools (\<lambda>n. None) chain_up (snd (Update chain_up fresh_engine)) stored)))
     ([9], addr1) =
     Some \<lparr>pubkey = addr1 @ [5], status = ''Staking'', status_time = 1630000000,
       node_address = addr2, node_fee = 15, deposit_type = ''Full''\<rparr> \<and>
   map_of (rocketpool_nodes
      (snd (SaveNodes (\<lambda>n. None) chain_up (snd (Update chain_up fresh_engine)) stored)))
     ([9], addr2) =
     Some \<lparr>timezone_location = ''UTC'', rpl_stake = ''500'', min_rpl_stake = ''160'',
       max_rpl_stake = ''2400''\<rparr> \<and>
   map_of (rocketpool_proposals
      (snd (SaveProposals (\<lambda>n. None) chain_up (snd (Update chain_up fresh_engine)) stored)))
     ([9], 1) =
     Some \<lparr>dao = ''rocketDAONodeTrustedProposals'', proposer_address = addr1,
       message = ''invite'', created_time = 100, start_time = 200, end_time = 300,
       expiry_time = 400, votes_required = 3, votes_for = 2, votes_against = 1,
       member_voted = True, member_supported = True, is_cancelled = False,
       is_executed = False, payload = [7], state = ''Active''\<rparr>"
proof -
  let ?rp = "snd (Update chain_up fresh_engine)"
  define M where "M = \<lparr>RocketpoolMinipool.Address = addr1, Pubkey = addr1 @ [5],
    NodeAddress = addr2, NodeFee = 15, DepositType = ''Full'', Status = ''Staking'',
    StatusTime = 1630000000\<rparr>"
  define N where "N = \<lparr>RocketpoolNode.Address = addr2, TimezoneLocation = ''Europe/Berlin'',
    RPLStake = Some 500, MinRPLStake = Some 160, MaxRPLStake = Some 2400\<rparr>"
  define P where "P = \<lparr>ID = 1, DAO = ''rocketDAONodeTrustedProposals'', ProposerAddress = addr1,
    Message = ''invite'', CreatedTime = 100, StartTime = 200, EndTime = 300,
    ExpiryTime = 400, VotesRequired = 3, VotesFor = 2, VotesAgainst = 1,
    MemberVoted = True, MemberSupported = True, IsCancelled = False, IsExecuted = False,
    Payload = [7], State = ''Active''\<rparr>"
  define oldm where "oldm = \<lparr>pubkey = [4, 2], status = ''Prelaunch'',
    status_time = 1620000000, node_address = addr2, node_fee = 15, deposit_type = ''Half''\<rparr>"
  define oldn where "oldn = \<lparr>timezone_location = ''UTC'', rpl_stake = ''100'',
    min_rpl_stake = ''10'', max_rpl_stake = ''1000''\<rparr>"
  have scope: "RocketStorageContract_Address chain_up = [9]"
    by (simp add: chain_up_def)
  have "fst (SaveMinipools (\<lambda>n. None) chain_up ?rp stored) = None"
    by (simp add: SaveMinipools_def save_tx_no_fault)
  then have sm: "SaveMinipools (\<lambda>n. None) chain_up ?rp stored =
      (None, snd (SaveMinipools (\<lambda>n. None) chain_up ?rp stored))"
    by (simp add: prod_eq_iff)
  have "fst (SaveNodes (\<lambda>n. None) chain_up ?rp stored) = None"
    by (simp add: SaveNodes_def save_tx_no_fault)
  then have sn: "SaveNodes (\<lambda>n. None) chain_up ?rp stored =
      (None, snd (SaveNodes (\<lambda>n. None) chain_up ?rp stored))"
    by (simp add: prod_eq_iff)
  have "fst (SaveProposals (\<lambda>n. None) chain_up ?rp stored) = None"
    by (simp add: SaveProposals_def save_tx_no_fault)
  then have sp: "SaveProposals (\<lambda>n. None) chain_up ?rp stored =
      (None, snd (SaveProposals (\<lambda>n. None) chain_up ?rp stored))"
    by (simp add: prod_eq_iff)
  have dm: "distinct (map RocketpoolMinipool.Address (minipool_data ?rp))"
    by (simp add: fresh_refresh_data addr1_def addr2_def)
  have dn: "distinct (map RocketpoolNode.Address (node_data ?rp))"
    by (simp add: fresh_refresh_data)
  have dp: "distinct (map ID (proposal_data ?rp))"
    by (simp add: fresh_refresh_data)
  have im: "M \<in> set (minipool_data ?rp)"
    by (simp add: fresh_refresh_data M_def)
  have "N \<in> set (node_data ?rp)"
    by (simp add: fresh_refresh_data N_def)
  then have "in": "N \<in> set (node_data ?rp)" .
  have ip: "P \<in> set (proposal_data ?rp)"
    by (simp add: fresh_refresh_data P_def)
  have om: "map_of (rocketpool_minipools stored)
      (RocketStorageContract_Address chain_up, RocketpoolMinipool.Address M) = Some oldm"
    by (simp add: stored_rows scope M_def oldm_def)
  have on: "map_of (rocketpool_nodes stored)
      (RocketStorageContract_Address chain_up, RocketpoolNode.Address N) = Some oldn"
    by (simp add: stored_rows scope N_def oldn_def)
  have op: "map_of (rocketpool_proposals stored) (RocketStorageContract_Address chain_up, ID P) =
      Some (snd (proposal_values [9] proposal1))"
    by (simp add: stored_rows scope P_def)
  note T = upsert_conflict_updates_listed_columns
  have a: "map_of (rocketpool_minipools (snd (SaveMinipools (\<lambda>n. None) chain_up ?rp stored)))
      ([9], addr1) =
      Some \<lparr>pubkey = addr1 @ [5], status = ''Staking'', status_time = 1630000000,
        node_address = addr2, node_fee = 15, deposit_type = ''Full''\<rparr>"
    using T [THEN conjunct1, THEN mp, THEN mp, THEN mp, THEN mp, OF sm dm im om]
    by (simp add: scope M_def)
  have b: "map_of (rocketpool_nodes (snd (SaveNodes (\<lambda>n. None) chain_up ?rp stored)))
      ([9], addr2) =
      Some \<lparr>timezone_location = ''UTC'', rpl_stake = ''500'', min_rpl_stake = ''160'',
        max_rpl_stake = ''2400''\<rparr>"
    using T [THEN conjunct2, THEN conjunct1, THEN mp, THEN mp, THEN mp, THEN mp, OF sn dn "in" on]
    by (simp add: scope N_def oldn_def big_String_def)
  have c: "map_of (rocketpool_proposals (snd (SaveProposals (\<lambda>n. None) chain_up ?rp stored)))
      ([9], 1) =
      Some \<lparr>dao = ''rocketDAONodeTrustedProposals'', proposer_address = addr1,
        message = ''invite'', created_time = 100, start_time = 200, end_time = 300,
        expiry_time = 400, votes_required = 3, votes_for = 2, votes_against = 1,
        member_voted = True, member_supported = True, is_cancelled = False,
        is_executed = False, payload = [7], state = ''Active''\<rparr>"
    using T [THEN conjunct2, THEN conjunct2, THEN mp, THEN mp, THEN mp, THEN mp, OF sp dp ip op]
    by (simp add: scope P_def)
  from a b c show ?thesis
    by (simp only: simp_thms)
qed

end
